theory Spec2Isabelle
  imports Complex_Main
begin

section \<open>Request values\<close>

text \<open>
  A field of a request body, after \<open>express.json()\<close>: \<open>JUndefined\<close> for a field that
  is absent, \<open>JObject\<close> for an array or an object (the handlers never look inside one). A
  JSON number is a finite double, hence a rational; a literal too large for a double
  parses to an infinity (\<open>JInf\<close>, with its sign). The handlers are modelled from the
  parsed body on: a request that \<open>express.json()\<close> refuses (text that is not JSON, a body
  above its size limit) reaches none of them.
\<close>

datatype json =
  JUndefined | JNull | JBool bool | JNum rat | JInf bool | JStr string | JObject

text \<open>\<open>Number.isFinite(v)\<close>: true for a finite number only, with no coercion.\<close>

fun isFinite :: "json \<Rightarrow> bool" where
  "isFinite (JNum q) = True"
| "isFinite v = False"

text \<open>JavaScript truthiness, as \<open>!v\<close> and \<open>v || null\<close> read it.\<close>

fun truthy :: "json \<Rightarrow> bool" where
  "truthy JUndefined = False"
| "truthy JNull = False"
| "truthy (JBool b) = b"
| "truthy (JNum q) = (q \<noteq> 0)"
| "truthy (JInf b) = True"
| "truthy (JStr s) = (s \<noteq> [])"
| "truthy JObject = True"

text \<open>\<open>Math.round\<close>: the nearest integer, a tie going up.\<close>

definition Math_round :: "rat \<Rightarrow> int" where
  "Math_round q = \<lfloor>q + 1 / 2\<rfloor>"

section \<open>The store (db/schema.sql)\<close>

text \<open>
  One record per table of the schema, a row list per table, and the counter that
  \<open>AUTOINCREMENT\<close> keeps for each of the three tables that declare it (the largest rowid
  the table ever held). Integers are unbounded: no claim depends on the 64-bit range.
  A text column holds the value the handler binds to it.
\<close>

record table_row =
  t_id :: int
  t_name :: string
  t_defaultX :: int
  t_defaultY :: int
  t_width :: int
  t_height :: int
  t_capacity :: "int option"

record layout_row =
  l_id :: int
  l_date :: string

record group_row =
  g_id :: int
  g_layoutInstanceId :: int

record table_state_row =
  ts_layoutInstanceId :: int
  ts_tableId :: int
  ts_x :: int
  ts_y :: int
  ts_groupId :: "int option"

record reservation_row =
  r_id :: int
  r_layoutInstanceId :: int
  r_groupId :: int
  r_time :: json
  r_name :: json
  r_partySize :: rat
  r_notes :: json
  r_createdAt :: string
  r_updatedAt :: string

record db =
  tables :: "table_row list"
  layout_instances :: "layout_row list"
  table_groups :: "group_row list"
  table_state :: "table_state_row list"
  reservations :: "reservation_row list"
  seq_layout_instances :: int
  seq_table_groups :: int
  seq_reservations :: int

text \<open>
  The rowid of an \<open>INSERT\<close> into an \<open>AUTOINCREMENT\<close> table: one more than the largest
  rowid the table has ever held (its counter, or a row still present).
\<close>

definition next_rowid :: "int \<Rightarrow> int list \<Rightarrow> int" where
  "next_rowid seq ids = fold max ids seq + 1"

text \<open>
  \<open>DELETE FROM table_groups WHERE P\<close>, with the actions the schema attaches to the
  foreign keys on \<open>table_groups(id)\<close>: \<open>table_state.groupId\<close> is set to NULL and the
  reservations of a deleted group are deleted with it.
\<close>

definition delete_table_groups :: "(group_row \<Rightarrow> bool) \<Rightarrow> db \<Rightarrow> db" where
  "delete_table_groups P s =
     (let gone = map g_id (filter P (table_groups s)) in
      s\<lparr>table_groups := filter (\<lambda>g. \<not> P g) (table_groups s),
        table_state :=
          map (\<lambda>r. case ts_groupId r of
                      None \<Rightarrow> r
                    | Some g \<Rightarrow> if g \<in> set gone then r\<lparr>ts_groupId := None\<rparr> else r)
            (table_state s),
        reservations := filter (\<lambda>r. r_groupId r \<notin> set gone) (reservations s)\<rparr>)"

text \<open>
  The foreign key of a \<open>groupId\<close> column: a bound number is accepted when it is the id of
  a row of \<open>table_groups\<close> (of any layout instance).
\<close>

definition references_group :: "db \<Rightarrow> rat \<Rightarrow> bool" where
  "references_group s q = (\<exists>g \<in> set (table_groups s). of_int (g_id g) = q)"

section \<open>Responses\<close>

text \<open>
  The status a handler answers with: 200 with its JSON payload, 400 (the specification's
  ValidationError), 404, 409, and 500 from the handler's \<open>catch\<close>.
\<close>

datatype 'a response = Ok 'a | BadRequest | NotFound | Conflict | ServerError

section \<open>Layout instances (index.js)\<close>

text \<open>\<open>SELECT id FROM layout_instances WHERE date = ?\<close>\<close>

definition find_layout :: "db \<Rightarrow> string \<Rightarrow> int option" where
  "find_layout s date = map_option l_id (find (\<lambda>l. l_date l = date) (layout_instances s))"

definition default_state :: "int \<Rightarrow> table_row \<Rightarrow> table_state_row" where
  "default_state layoutId t =
     \<lparr>ts_layoutInstanceId = layoutId, ts_tableId = t_id t,
      ts_x = t_defaultX t, ts_y = t_defaultY t, ts_groupId = None\<rparr>"

text \<open>\<open>ensureLayoutInstance\<close>: the result is \<open>(id, existed)\<close>.\<close>

definition ensureLayoutInstance :: "string \<Rightarrow> db \<Rightarrow> (int \<times> bool) \<times> db" where
  "ensureLayoutInstance date s =
     (case find_layout s date of
        Some i \<Rightarrow> ((i, True), s)
      | None \<Rightarrow>
          (let layoutId = next_rowid (seq_layout_instances s) (map l_id (layout_instances s));
               s1 = s\<lparr>layout_instances :=
                        layout_instances s @ [\<lparr>l_id = layoutId, l_date = date\<rparr>],
                      seq_layout_instances := layoutId\<rparr>;
               s2 = s1\<lparr>table_state :=
                         table_state s1 @ map (default_state layoutId) (tables s1)\<rparr>
           in ((layoutId, False), s2)))"

text \<open>\<open>POST /api/layout/:date/init\<close>\<close>

definition post_layout_init :: "string \<Rightarrow> db \<Rightarrow> (int \<times> bool) response \<times> db" where
  "post_layout_init date s =
     (case ensureLayoutInstance date s of (result, s') \<Rightarrow> (Ok result, s'))"

subsection \<open>The read model\<close>

record layout_table =
  lt_tableId :: int
  lt_x :: int
  lt_y :: int
  lt_groupId :: "int option"
  lt_name :: string
  lt_width :: int
  lt_height :: int
  lt_capacity :: "int option"

record layout_payload =
  p_layoutInstanceId :: int
  p_tables :: "layout_table list"
  p_groups :: "(int \<times> int list) list"
  p_reservations :: "reservation_row list"

definition join_table :: "table_state_row \<Rightarrow> table_row \<Rightarrow> layout_table" where
  "join_table r t =
     \<lparr>lt_tableId = ts_tableId r, lt_x = ts_x r, lt_y = ts_y r, lt_groupId = ts_groupId r,
      lt_name = t_name t, lt_width = t_width t, lt_height = t_height t,
      lt_capacity = t_capacity t\<rparr>"

text \<open>
  \<open>fetchLayoutPayload\<close>. The groups are listed by ascending id, the order in which
  \<open>Object.keys\<close> enumerates integer keys; the reservations are the instance's rows.
\<close>

definition fetchLayoutPayload :: "int \<Rightarrow> db \<Rightarrow> layout_payload" where
  "fetchLayoutPayload layoutInstanceId s =
     (let groupRows =
            filter (\<lambda>r. ts_layoutInstanceId r = layoutInstanceId \<and> ts_groupId r \<noteq> None)
              (table_state s)
      in
      \<lparr>p_layoutInstanceId = layoutInstanceId,
       p_tables =
         sort_key lt_tableId
           [join_table r t.
              r \<leftarrow> table_state s, ts_layoutInstanceId r = layoutInstanceId,
              t \<leftarrow> tables s, t_id t = ts_tableId r],
       p_groups =
         map (\<lambda>g. (g, map ts_tableId (filter (\<lambda>r. ts_groupId r = Some g) groupRows)))
           (sort (remdups (List.map_filter ts_groupId groupRows))),
       p_reservations =
         filter (\<lambda>r. r_layoutInstanceId r = layoutInstanceId) (reservations s)\<rparr>)"

text \<open>\<open>GET /api/layout/:date\<close>\<close>

definition get_layout :: "string \<Rightarrow> db \<Rightarrow> layout_payload response" where
  "get_layout date s =
     (case find_layout s date of
        None \<Rightarrow> NotFound
      | Some layout \<Rightarrow> Ok (fetchLayoutPayload layout s))"

section \<open>Table update\<close>

text \<open>
  The three optional assignments of \<open>PUT /api/layout/:date/table/:tableId\<close>: a finite \<open>x\<close>
  or \<open>y\<close> is rounded, a \<open>groupId\<close> that is \<open>null\<close> or a finite number is bound as it is.
\<close>

definition round_field :: "json \<Rightarrow> int option" where
  "round_field v = (case v of JNum q \<Rightarrow> Some (Math_round q) | _ \<Rightarrow> None)"

definition group_field :: "json \<Rightarrow> rat option option" where
  "group_field v = (case v of JNull \<Rightarrow> Some None | JNum q \<Rightarrow> Some (Some q) | _ \<Rightarrow> None)"

definition apply_updates ::
  "int option \<Rightarrow> int option \<Rightarrow> rat option option \<Rightarrow> table_state_row \<Rightarrow> table_state_row" where
  "apply_updates ux uy ug r =
     r\<lparr>ts_x := (case ux of None \<Rightarrow> ts_x r | Some v \<Rightarrow> v),
       ts_y := (case uy of None \<Rightarrow> ts_y r | Some v \<Rightarrow> v),
       ts_groupId :=
         (case ug of None \<Rightarrow> ts_groupId r | Some None \<Rightarrow> None | Some (Some q) \<Rightarrow> Some \<lfloor>q\<rfloor>)\<rparr>"

text \<open>
  The handler. \<open>tableId\<close> is the URL segment, compared with the integer column. The
  \<open>UPDATE\<close> is one statement: when it would store a \<open>groupId\<close> that references no group
  in a row it matches, the foreign key rejects it, nothing is written and the handler's
  \<open>catch\<close> answers 500.
\<close>

definition put_layout_table ::
  "string \<Rightarrow> int \<Rightarrow> json \<Rightarrow> json \<Rightarrow> json \<Rightarrow> db \<Rightarrow> unit response \<times> db" where
  "put_layout_table date tableId x y groupId s =
     (case find_layout s date of
        None \<Rightarrow> (NotFound, s)
      | Some layout \<Rightarrow>
          (let ux = round_field x; uy = round_field y; ug = group_field groupId;
               hit = (\<lambda>r. ts_layoutInstanceId r = layout \<and> ts_tableId r = tableId)
           in
           if ux = None \<and> uy = None \<and> ug = None then (BadRequest, s)
           else if (\<exists>r \<in> set (table_state s). hit r) \<and>
                   (case ug of Some (Some q) \<Rightarrow> \<not> references_group s q | _ \<Rightarrow> False)
           then (ServerError, s)
           else
             (Ok (),
              s\<lparr>table_state :=
                  map (\<lambda>r. if hit r then apply_updates ux uy ug r else r) (table_state s)\<rparr>)))"

section \<open>Grouping\<close>

text \<open>\<open>SELECT DISTINCT groupId FROM table_state WHERE ... tableId IN (...) AND groupId IS NOT NULL\<close>\<close>

definition existing_groups :: "int \<Rightarrow> int list \<Rightarrow> db \<Rightarrow> int list" where
  "existing_groups layout tableIds s =
     remdups (List.map_filter
       (\<lambda>r. if ts_layoutInstanceId r = layout \<and> ts_tableId r \<in> set tableIds
            then ts_groupId r else None)
       (table_state s))"

text \<open>\<open>SELECT COUNT(*) FROM reservations WHERE layoutInstanceId = ? AND groupId IN (...)\<close>\<close>

definition reserved_count :: "int \<Rightarrow> int list \<Rightarrow> db \<Rightarrow> nat" where
  "reserved_count layout groupIds s =
     length (filter (\<lambda>r. r_layoutInstanceId r = layout \<and> r_groupId r \<in> set groupIds)
       (reservations s))"

text \<open>\<open>UPDATE table_state SET groupId = ? WHERE layoutInstanceId = ? AND tableId IN (...)\<close>\<close>

definition set_group :: "int option \<Rightarrow> int \<Rightarrow> int list \<Rightarrow> db \<Rightarrow> db" where
  "set_group g layout tableIds s =
     s\<lparr>table_state :=
         map (\<lambda>r. if ts_layoutInstanceId r = layout \<and> ts_tableId r \<in> set tableIds
                  then r\<lparr>ts_groupId := g\<rparr> else r)
           (table_state s)\<rparr>"

text \<open>The group ids that still have a member in the instance (the \<open>NOT IN\<close> subquery).\<close>

definition member_groups :: "int \<Rightarrow> db \<Rightarrow> int list" where
  "member_groups layout s =
     remdups (List.map_filter
       (\<lambda>r. if ts_layoutInstanceId r = layout then ts_groupId r else None) (table_state s))"

text \<open>The \<open>DELETE\<close> of the implicated groups that have no member left.\<close>

definition delete_emptied :: "int \<Rightarrow> int list \<Rightarrow> db \<Rightarrow> db" where
  "delete_emptied layout groupIds s =
     delete_table_groups
       (\<lambda>g. g_layoutInstanceId g = layout \<and> g_id g \<in> set groupIds \<and>
            g_id g \<notin> set (member_groups layout s))
       s"

text \<open>\<open>INSERT INTO table_groups (layoutInstanceId) VALUES (?)\<close>, with \<open>lastID\<close>.\<close>

definition insert_group :: "int \<Rightarrow> db \<Rightarrow> int \<times> db" where
  "insert_group layout s =
     (let groupId = next_rowid (seq_table_groups s) (map g_id (table_groups s)) in
      (groupId,
       s\<lparr>table_groups := table_groups s @ [\<lparr>g_id = groupId, g_layoutInstanceId = layout\<rparr>],
         seq_table_groups := groupId\<rparr>))"

text \<open>
  The handler builds its \<open>IN (...)\<close> lists with one \<open>?\<close> per element, and the store
  refuses to prepare a statement with more than \<open>SQLITE_MAX_VARIABLE_NUMBER\<close> parameters
  (32766 in the library the server runs on): \<open>run\<close>, \<open>get\<close> or \<open>all\<close> then rejects and
  the handler's \<open>catch\<close> answers 500. No transaction is open, so what the statements
  before the refused one have written stays written.
\<close>

definition max_variable_number :: nat where
  "max_variable_number = 32766"

definition too_many :: "nat \<Rightarrow> bool" where
  "too_many parameters = (max_variable_number < parameters)"

text \<open>
  The last two statements of the group handler: the \<open>INSERT\<close> of the group row, then the
  \<open>UPDATE\<close> that assigns it, with the group id, the instance id and every table id as
  parameters.
\<close>

definition create_group :: "int \<Rightarrow> int list \<Rightarrow> db \<Rightarrow> int response \<times> db" where
  "create_group layout tableIds s =
     (case insert_group layout s of
        (groupId, s3) \<Rightarrow>
          if too_many (2 + length tableIds) then (ServerError, s3)
          else (Ok groupId, set_group (Some groupId) layout tableIds s3))"

text \<open>
  \<open>POST /api/layout/:date/group\<close>. The body's \<open>tableIds\<close> is \<open>None\<close> when it is not an
  array, and a list of table ids otherwise. Statement by statement, with its number of
  parameters: the \<open>SELECT\<close> of the existing groups (the instance and every table id), the
  \<open>COUNT\<close> of their reservations (the instance and every group id), the \<open>UPDATE\<close> that
  clears the tables (as the \<open>SELECT\<close>), the \<open>DELETE\<close> of the emptied groups (the instance
  twice and every group id), then \<open>create_group\<close>.
\<close>

definition post_layout_group :: "string \<Rightarrow> int list option \<Rightarrow> db \<Rightarrow> int response \<times> db" where
  "post_layout_group date body s =
     (case body of
        None \<Rightarrow> (BadRequest, s)
      | Some tableIds \<Rightarrow>
          if tableIds = [] then (BadRequest, s)
          else
            (case find_layout s date of
               None \<Rightarrow> (NotFound, s)
             | Some layout \<Rightarrow>
                 if too_many (1 + length tableIds) then (ServerError, s)
                 else
                   (let groupIds = existing_groups layout tableIds s in
                    if groupIds \<noteq> [] then
                      if too_many (1 + length groupIds) then (ServerError, s)
                      else if reserved_count layout groupIds s > 0 then (Conflict, s)
                      else
                        (let s1 = set_group None layout tableIds s in
                         if too_many (2 + length groupIds) then (ServerError, s1)
                         else create_group layout tableIds (delete_emptied layout groupIds s1))
                    else create_group layout tableIds s)))"

text \<open>\<open>POST /api/layout/:date/ungroup\<close>\<close>

definition post_layout_ungroup :: "string \<Rightarrow> json \<Rightarrow> db \<Rightarrow> unit response \<times> db" where
  "post_layout_ungroup date groupId s =
     (case groupId of
        JNum q \<Rightarrow>
          (case find_layout s date of
             None \<Rightarrow> (NotFound, s)
           | Some layout \<Rightarrow>
               if \<exists>r \<in> set (reservations s).
                    r_layoutInstanceId r = layout \<and> of_int (r_groupId r) = q
               then (Conflict, s)
               else
                 (let s1 = s\<lparr>table_state :=
                              map (\<lambda>r. if ts_layoutInstanceId r = layout \<and>
                                           map_option of_int (ts_groupId r) = Some q
                                        then r\<lparr>ts_groupId := None\<rparr> else r)
                                (table_state s)\<rparr>
                  in (Ok (),
                      delete_table_groups
                        (\<lambda>g. of_int (g_id g) = q \<and> g_layoutInstanceId g = layout) s1)))
      | _ \<Rightarrow> (BadRequest, s))"

section \<open>Reservations\<close>

record reservation_body =
  b_groupId :: json
  b_reservationId :: json
  b_time :: json
  b_name :: json
  b_partySize :: json
  b_notes :: json

text \<open>The JSON the handler answers with: \<open>{id, groupId, time, name, partySize, notes}\<close>.\<close>

record reservation_reply =
  rp_id :: rat
  rp_groupId :: rat
  rp_time :: json
  rp_name :: json
  rp_partySize :: rat
  rp_notes :: json

text \<open>\<open>notes || null\<close>\<close>

definition notes_or_null :: "json \<Rightarrow> json" where
  "notes_or_null notes = (if truthy notes then notes else JNull)"

text \<open>
  \<open>POST /api/layout/:date/reservation\<close>; \<open>now\<close> is \<open>new Date().toISOString()\<close>. The
  \<open>INSERT\<close> binds \<open>groupId\<close> to a column with a foreign key: a number that is no group's
  id is rejected, nothing is written and the \<open>catch\<close> answers 500.
\<close>

definition post_layout_reservation ::
  "string \<Rightarrow> reservation_body \<Rightarrow> string \<Rightarrow> db \<Rightarrow> reservation_reply response \<times> db" where
  "post_layout_reservation date body now s =
     (if \<not> isFinite (b_groupId body) \<or> \<not> truthy (b_time body) \<or> \<not> truthy (b_name body) \<or>
         \<not> isFinite (b_partySize body)
      then (BadRequest, s)
      else
        (case (b_groupId body, b_partySize body) of
           (JNum groupId, JNum partySize) \<Rightarrow>
             (case find_layout s date of
                None \<Rightarrow> (NotFound, s)
              | Some layout \<Rightarrow>
                  (case b_reservationId body of
                     JNum reservationId \<Rightarrow>
                       if \<not> (\<exists>r \<in> set (reservations s).
                               of_int (r_id r) = reservationId \<and> r_layoutInstanceId r = layout)
                       then (NotFound, s)
                       else
                         (Ok \<lparr>rp_id = reservationId, rp_groupId = groupId,
                              rp_time = b_time body, rp_name = b_name body,
                              rp_partySize = partySize,
                              rp_notes = notes_or_null (b_notes body)\<rparr>,
                          s\<lparr>reservations :=
                              map (\<lambda>r. if of_int (r_id r) = reservationId
                                       then r\<lparr>r_time := b_time body, r_name := b_name body,
                                              r_partySize := partySize,
                                              r_notes := notes_or_null (b_notes body),
                                              r_updatedAt := now\<rparr>
                                       else r)
                                (reservations s)\<rparr>)
                   | _ \<Rightarrow>
                       if \<not> references_group s groupId then (ServerError, s)
                       else
                         (let newId = next_rowid (seq_reservations s)
                                        (map r_id (reservations s))
                          in
                          (Ok \<lparr>rp_id = of_int newId, rp_groupId = groupId,
                               rp_time = b_time body, rp_name = b_name body,
                               rp_partySize = partySize,
                               rp_notes = notes_or_null (b_notes body)\<rparr>,
                           s\<lparr>reservations :=
                               reservations s @
                                 [\<lparr>r_id = newId, r_layoutInstanceId = layout,
                                   r_groupId = \<lfloor>groupId\<rfloor>,
                                   r_time = b_time body, r_name = b_name body,
                                   r_partySize = partySize,
                                   r_notes = notes_or_null (b_notes body),
                                   r_createdAt = now, r_updatedAt = now\<rparr>],
                             seq_reservations := newId\<rparr>))))
         | _ \<Rightarrow> (BadRequest, s)))"

text \<open>\<open>DELETE /api/layout/:date/reservation/:reservationId\<close>\<close>

definition delete_layout_reservation :: "string \<Rightarrow> int \<Rightarrow> db \<Rightarrow> unit response \<times> db" where
  "delete_layout_reservation date reservationId s =
     (case find_layout s date of
        None \<Rightarrow> (NotFound, s)
      | Some layout \<Rightarrow>
          (Ok (),
           s\<lparr>reservations :=
               filter (\<lambda>r. \<not> (r_id r = reservationId \<and> r_layoutInstanceId r = layout))
                 (reservations s)\<rparr>))"

section \<open>Observations and call sequences\<close>

text \<open>The primary key of \<open>table_state\<close>, row by row.\<close>

definition state_keys :: "db \<Rightarrow> (int \<times> int) list" where
  "state_keys s = map (\<lambda>m. (ts_layoutInstanceId m, ts_tableId m)) (table_state s)"

text \<open>
  Invariant I2 for one layout instance: every group row of the instance has a
  \<open>table_state\<close> row of the instance whose \<open>groupId\<close> is its id.
\<close>

definition no_empty_groups :: "int \<Rightarrow> db \<Rightarrow> bool" where
  "no_empty_groups layout s =
     (\<forall>g \<in> set (table_groups s).
        g_layoutInstanceId g = layout \<longrightarrow>
        (\<exists>m \<in> set (table_state s).
           ts_layoutInstanceId m = layout \<and> ts_groupId m = Some (g_id g)))"

text \<open>A sequence of group and ungroup requests for one date, and the stores it passes through.\<close>

datatype grouping_call = Group "int list option" | Ungroup json

fun call :: "string \<Rightarrow> grouping_call \<Rightarrow> db \<Rightarrow> db" where
  "call date (Group body) s = snd (post_layout_group date body s)"
| "call date (Ungroup groupId) s = snd (post_layout_ungroup date groupId s)"

fun states_after :: "string \<Rightarrow> grouping_call list \<Rightarrow> db \<Rightarrow> db list" where
  "states_after date [] s = []"
| "states_after date (c # cs) s = call date c s # states_after date cs (call date c s)"

text \<open>
  The group requests of the invariant below: one that the handler refuses before it
  reads the store (no array, or an empty one), or one whose \<open>tableIds\<close> contain a table
  of \<open>ids\<close> and are few enough for every statement of the handler to be prepared. An
  ungroup request is always one.
\<close>

fun admissible :: "int list \<Rightarrow> grouping_call \<Rightarrow> bool" where
  "admissible ids (Group (Some tableIds)) =
     (tableIds = [] \<or>
      ((\<exists>t \<in> set tableIds. t \<in> set ids) \<and> 2 + length tableIds \<le> max_variable_number))"
| "admissible ids c = True"

text \<open>The coordinates a snapshot shows for a table.\<close>

definition snapshot_xy :: "layout_payload \<Rightarrow> int \<Rightarrow> (int \<times> int) list" where
  "snapshot_xy p tableId =
     map (\<lambda>e. (lt_x e, lt_y e)) (filter (\<lambda>e. lt_tableId e = tableId) (p_tables p))"

text \<open>
  The specification's words for a stored coordinate, to compare with the handler: rounded
  to an integer, a negative value clamped to zero.
\<close>

definition spec_clamped_round :: "rat \<Rightarrow> int" where
  "spec_clamped_round q = max 0 (Math_round q)"

text \<open>The specification's words for a valid party size: a positive integer.\<close>

definition spec_positive_integer :: "rat \<Rightarrow> bool" where
  "spec_positive_integer q = (0 < q \<and> of_int \<lfloor>q\<rfloor> = q)"

text \<open>The columns of a reservation that an update leaves alone.\<close>

definition binding :: "reservation_row \<Rightarrow> int \<times> int \<times> int \<times> string" where
  "binding r = (r_id r, r_layoutInstanceId r, r_groupId r, r_createdAt r)"

text \<open>The presence checks of the reservation handler.\<close>

definition fields_present :: "reservation_body \<Rightarrow> bool" where
  "fields_present body =
     (isFinite (b_groupId body) \<and> truthy (b_time body) \<and> truthy (b_name body) \<and>
      isFinite (b_partySize body))"

section \<open>Example stores\<close>

text \<open>
  The scenario of the specification: a catalog of three tables, the date 2024-01-01
  opened, tables 1 and 2 grouped, and the group reserved.
\<close>

definition catalog3 :: "table_row list" where
  "catalog3 =
     [\<lparr>t_id = 1, t_name = ''T1'', t_defaultX = 10, t_defaultY = 20, t_width = 80,
       t_height = 80, t_capacity = Some 4\<rparr>,
      \<lparr>t_id = 2, t_name = ''T2'', t_defaultX = 110, t_defaultY = 20, t_width = 80,
       t_height = 80, t_capacity = Some 4\<rparr>,
      \<lparr>t_id = 3, t_name = ''T3'', t_defaultX = 210, t_defaultY = 20, t_width = 80,
       t_height = 80, t_capacity = None\<rparr>]"

definition seeded_store :: db where
  "seeded_store =
     \<lparr>tables = catalog3, layout_instances = [], table_groups = [], table_state = [],
      reservations = [], seq_layout_instances = 0, seq_table_groups = 0,
      seq_reservations = 0\<rparr>"

definition opened_store :: db where
  "opened_store =
     \<lparr>tables = catalog3,
      layout_instances = [\<lparr>l_id = 1, l_date = ''2024-01-01''\<rparr>],
      table_groups = [],
      table_state =
        [\<lparr>ts_layoutInstanceId = 1, ts_tableId = 1, ts_x = 10, ts_y = 20, ts_groupId = None\<rparr>,
         \<lparr>ts_layoutInstanceId = 1, ts_tableId = 2, ts_x = 110, ts_y = 20, ts_groupId = None\<rparr>,
         \<lparr>ts_layoutInstanceId = 1, ts_tableId = 3, ts_x = 210, ts_y = 20, ts_groupId = None\<rparr>],
      reservations = [], seq_layout_instances = 1, seq_table_groups = 0,
      seq_reservations = 0\<rparr>"

definition grouped_store :: db where
  "grouped_store =
     opened_store
       \<lparr>table_groups := [\<lparr>g_id = 1, g_layoutInstanceId = 1\<rparr>],
        table_state :=
          [\<lparr>ts_layoutInstanceId = 1, ts_tableId = 1, ts_x = 10, ts_y = 20, ts_groupId = Some 1\<rparr>,
           \<lparr>ts_layoutInstanceId = 1, ts_tableId = 2, ts_x = 110, ts_y = 20, ts_groupId = Some 1\<rparr>,
           \<lparr>ts_layoutInstanceId = 1, ts_tableId = 3, ts_x = 210, ts_y = 20, ts_groupId = None\<rparr>],
        seq_table_groups := 1\<rparr>"

definition smith :: reservation_row where
  "smith =
     \<lparr>r_id = 1, r_layoutInstanceId = 1, r_groupId = 1, r_time = JStr ''18:30'',
      r_name = JStr ''Smith'', r_partySize = 4, r_notes = JNull,
      r_createdAt = ''2024-01-01T09:00:00.000Z'', r_updatedAt = ''2024-01-01T09:00:00.000Z''\<rparr>"

definition reserved_store :: db where
  "reserved_store = grouped_store\<lparr>reservations := [smith], seq_reservations := 1\<rparr>"

text \<open>The opened date with table 3 alone in a group.\<close>

definition lone_store :: db where
  "lone_store =
     opened_store
       \<lparr>table_groups := [\<lparr>g_id = 1, g_layoutInstanceId = 1\<rparr>],
        table_state :=
          [\<lparr>ts_layoutInstanceId = 1, ts_tableId = 1, ts_x = 10, ts_y = 20, ts_groupId = None\<rparr>,
           \<lparr>ts_layoutInstanceId = 1, ts_tableId = 2, ts_x = 110, ts_y = 20, ts_groupId = None\<rparr>,
           \<lparr>ts_layoutInstanceId = 1, ts_tableId = 3, ts_x = 210, ts_y = 20, ts_groupId = Some 1\<rparr>],
        seq_table_groups := 1\<rparr>"

text \<open>
  The grouped store after a second date is opened and a reservation is posted on that
  second date with the id of the first date's group.
\<close>

definition stray :: reservation_row where
  "stray =
     \<lparr>r_id = 1, r_layoutInstanceId = 2, r_groupId = 1, r_time = JStr ''12:00'',
      r_name = JStr ''Lee'', r_partySize = 3, r_notes = JNull,
      r_createdAt = ''2024-01-01T12:00:00.000Z'', r_updatedAt = ''2024-01-01T12:00:00.000Z''\<rparr>"

definition crossed_store :: db where
  "crossed_store =
     grouped_store
       \<lparr>layout_instances :=
          [\<lparr>l_id = 1, l_date = ''2024-01-01''\<rparr>, \<lparr>l_id = 2, l_date = ''2024-01-02''\<rparr>],
        table_state :=
          [\<lparr>ts_layoutInstanceId = 1, ts_tableId = 1, ts_x = 10, ts_y = 20, ts_groupId = Some 1\<rparr>,
           \<lparr>ts_layoutInstanceId = 1, ts_tableId = 2, ts_x = 110, ts_y = 20, ts_groupId = Some 1\<rparr>,
           \<lparr>ts_layoutInstanceId = 1, ts_tableId = 3, ts_x = 210, ts_y = 20, ts_groupId = None\<rparr>,
           \<lparr>ts_layoutInstanceId = 2, ts_tableId = 1, ts_x = 10, ts_y = 20, ts_groupId = None\<rparr>,
           \<lparr>ts_layoutInstanceId = 2, ts_tableId = 2, ts_x = 110, ts_y = 20, ts_groupId = None\<rparr>,
           \<lparr>ts_layoutInstanceId = 2, ts_tableId = 3, ts_x = 210, ts_y = 20, ts_groupId = None\<rparr>],
        reservations := [stray],
        seq_layout_instances := 2,
        seq_reservations := 1\<rparr>"

text \<open>
  A store with another catalog, whose tables differ in every default, and one date
  already opened and rearranged.
\<close>

definition bistro_store :: db where
  "bistro_store =
     \<lparr>tables =
        [\<lparr>t_id = 4, t_name = ''Bar'', t_defaultX = 15, t_defaultY = 25, t_width = 120,
          t_height = 40, t_capacity = Some 6\<rparr>,
         \<lparr>t_id = 9, t_name = ''Booth'', t_defaultX = 40, t_defaultY = 70, t_width = 60,
          t_height = 90, t_capacity = None\<rparr>],
      layout_instances = [\<lparr>l_id = 3, l_date = ''2024-02-01''\<rparr>],
      table_groups = [\<lparr>g_id = 7, g_layoutInstanceId = 3\<rparr>],
      table_state =
        [\<lparr>ts_layoutInstanceId = 3, ts_tableId = 4, ts_x = 300, ts_y = 5, ts_groupId = Some 7\<rparr>,
         \<lparr>ts_layoutInstanceId = 3, ts_tableId = 9, ts_x = 0, ts_y = 0, ts_groupId = None\<rparr>],
      reservations = [], seq_layout_instances = 3, seq_table_groups = 7,
      seq_reservations = 2\<rparr>"

definition bistro_opened :: db where
  "bistro_opened =
     bistro_store
       \<lparr>layout_instances :=
          [\<lparr>l_id = 3, l_date = ''2024-02-01''\<rparr>, \<lparr>l_id = 4, l_date = ''2024-02-02''\<rparr>],
        table_state :=
          [\<lparr>ts_layoutInstanceId = 3, ts_tableId = 4, ts_x = 300, ts_y = 5, ts_groupId = Some 7\<rparr>,
           \<lparr>ts_layoutInstanceId = 3, ts_tableId = 9, ts_x = 0, ts_y = 0, ts_groupId = None\<rparr>,
           \<lparr>ts_layoutInstanceId = 4, ts_tableId = 4, ts_x = 15, ts_y = 25, ts_groupId = None\<rparr>,
           \<lparr>ts_layoutInstanceId = 4, ts_tableId = 9, ts_x = 40, ts_y = 70, ts_groupId = None\<rparr>],
        seq_layout_instances := 4\<rparr>"

section \<open>Facts about the queries\<close>

lemma set_map_filter:
  "set (List.map_filter f xs) = {y. \<exists>x \<in> set xs. f x = Some y}"
  by (induction xs) (auto simp: List.map_filter_simps split: option.splits)

lemma set_existing_groups:
  "set (existing_groups layout tableIds s) =
     {g. \<exists>m \<in> set (table_state s).
           ts_layoutInstanceId m = layout \<and> ts_tableId m \<in> set tableIds \<and> ts_groupId m = Some g}"
  by (auto simp: existing_groups_def set_map_filter split: if_splits)

lemma reserved_count_pos:
  "(reserved_count layout groupIds s > 0) =
     (\<exists>r \<in> set (reservations s). r_layoutInstanceId r = layout \<and> r_groupId r \<in> set groupIds)"
  by (auto simp: reserved_count_def filter_empty_conv)

lemmas store_defs =
  seeded_store_def opened_store_def grouped_store_def reserved_store_def lone_store_def
  crossed_store_def bistro_store_def bistro_opened_def smith_def stray_def catalog3_def

lemmas limit_defs = too_many_def max_variable_number_def

lemma find_layout_examples:
  "find_layout seeded_store ''2024-01-01'' = None"
  "find_layout opened_store ''2024-01-01'' = Some 1"
  "find_layout grouped_store ''2024-01-01'' = Some 1"
  "find_layout reserved_store ''2024-01-01'' = Some 1"
  by (simp_all add: find_layout_def store_defs)

text \<open>The example stores are the ones the handlers produce, one call after the other.\<close>

lemma opened_store_reached:
  "ensureLayoutInstance ''2024-01-01'' seeded_store = ((1, False), opened_store)"
  by (simp add: ensureLayoutInstance_def find_layout_def next_rowid_def default_state_def
      store_defs)

lemma grouped_store_reached:
  "post_layout_group ''2024-01-01'' (Some [1, 2]) opened_store = (Ok 1, grouped_store)"
  by (simp add: post_layout_group_def create_group_def limit_defs find_layout_def
      existing_groups_def List.map_filter_def insert_group_def set_group_def next_rowid_def
      store_defs)

lemma reserved_store_reached:
  "post_layout_reservation ''2024-01-01''
     \<lparr>b_groupId = JNum 1, b_reservationId = JUndefined, b_time = JStr ''18:30'',
      b_name = JStr ''Smith'', b_partySize = JNum 4, b_notes = JUndefined\<rparr>
     ''2024-01-01T09:00:00.000Z'' grouped_store
   = (Ok \<lparr>rp_id = 1, rp_groupId = 1, rp_time = JStr ''18:30'', rp_name = JStr ''Smith'',
          rp_partySize = 4, rp_notes = JNull\<rparr>,
      reserved_store)"
  by (simp add: post_layout_reservation_def find_layout_def references_group_def
      notes_or_null_def next_rowid_def store_defs)

lemma lone_store_reached:
  "post_layout_group ''2024-01-01'' (Some [3]) opened_store = (Ok 1, lone_store)"
  by (simp add: post_layout_group_def create_group_def limit_defs find_layout_def
      existing_groups_def List.map_filter_def insert_group_def set_group_def next_rowid_def
      store_defs)

text \<open>The end of the scenario: with the reservation deleted, the group can be dissolved.\<close>

lemma scenario_delete_then_ungroup:
  "delete_layout_reservation ''2024-01-01'' 1 reserved_store
     = (Ok (), grouped_store\<lparr>seq_reservations := 1\<rparr>)"
  "post_layout_ungroup ''2024-01-01'' (JNum 1) (grouped_store\<lparr>seq_reservations := 1\<rparr>)
     = (Ok (), opened_store\<lparr>seq_table_groups := 1, seq_reservations := 1\<rparr>)"
  by (simp_all add: delete_layout_reservation_def post_layout_ungroup_def find_layout_def
      delete_table_groups_def store_defs)

lemma crossed_store_reached:
  "post_layout_reservation ''2024-01-02''
     \<lparr>b_groupId = JNum 1, b_reservationId = JUndefined, b_time = JStr ''12:00'',
      b_name = JStr ''Lee'', b_partySize = JNum 3, b_notes = JUndefined\<rparr>
     ''2024-01-01T12:00:00.000Z''
     (snd (ensureLayoutInstance ''2024-01-02'' grouped_store))
   = (Ok \<lparr>rp_id = 1, rp_groupId = 1, rp_time = JStr ''12:00'', rp_name = JStr ''Lee'',
          rp_partySize = 3, rp_notes = JNull\<rparr>,
      crossed_store)"
  by (simp add: post_layout_reservation_def ensureLayoutInstance_def find_layout_def
      references_group_def notes_or_null_def next_rowid_def default_state_def store_defs)

lemma bistro_opened_reached:
  "ensureLayoutInstance ''2024-02-02'' bistro_store = ((4, False), bistro_opened)"
  by (simp add: ensureLayoutInstance_def find_layout_def next_rowid_def default_state_def
      store_defs)

section \<open>Row identifiers\<close>

lemma fold_max_ge: "seq \<le> fold max ids (seq::int)"
  by (induction ids arbitrary: seq) (auto intro: order_trans [OF max.cobounded2])

lemma fold_max_mem: "i \<in> set ids \<Longrightarrow> i \<le> fold max ids (seq::int)"
proof (induction ids arbitrary: seq)
  case Nil
  then show ?case by simp
next
  case (Cons a ids)
  show ?case
  proof (cases "i = a")
    case True
    have "a \<le> max a seq" by simp
    also have "\<dots> \<le> fold max ids (max a seq)" by (rule fold_max_ge)
    finally show ?thesis using True by simp
  next
    case False
    with Cons show ?thesis by simp
  qed
qed

lemma next_rowid_fresh: "i \<in> set ids \<Longrightarrow> i < next_rowid seq ids"
  using fold_max_mem [of i ids seq] by (simp add: next_rowid_def)

lemma next_rowid_above_seq: "seq < next_rowid seq ids"
  using fold_max_ge [of seq ids] by (simp add: next_rowid_def)

lemma find_snoc_None: "find P xs = None \<Longrightarrow> find P (xs @ [x]) = (if P x then Some x else None)"
  by (induction xs) (auto split: if_splits)

lemma find_layout_after_insert:
  "find_layout s date = None \<Longrightarrow>
   find_layout (s\<lparr>layout_instances := layout_instances s @ [\<lparr>l_id = i, l_date = date\<rparr>]\<rparr>) date = Some i"
  by (simp add: find_layout_def find_snoc_None)

section \<open>The primary key of the table states\<close>

lemma same_key_same_row:
  assumes "distinct (state_keys s)"
    and "m \<in> set (table_state s)" "m' \<in> set (table_state s)"
    and "ts_layoutInstanceId m = ts_layoutInstanceId m'" "ts_tableId m = ts_tableId m'"
  shows "m = m'"
proof -
  from assms(1) have "inj_on (\<lambda>m. (ts_layoutInstanceId m, ts_tableId m)) (set (table_state s))"
    unfolding state_keys_def by (simp add: distinct_map)
  from inj_onD [OF this _ assms(2,3)] assms(4,5) show ?thesis by simp
qed

text \<open>
  With one row per instance and table, the tables of a request belong to no more
  groups than the request has table ids.
\<close>

lemma length_existing_groups:
  assumes pk: "distinct (state_keys s)"
  shows "length (existing_groups layout tableIds s) \<le> length tableIds"
proof -
  let ?G = "set (existing_groups layout tableIds s)"
  have "\<forall>g \<in> ?G. \<exists>t. t \<in> set tableIds \<and>
      (\<exists>m \<in> set (table_state s).
         ts_layoutInstanceId m = layout \<and> ts_tableId m = t \<and> ts_groupId m = Some g)"
    unfolding set_existing_groups by blast
  then obtain f where f: "\<forall>g \<in> ?G. f g \<in> set tableIds \<and>
      (\<exists>m \<in> set (table_state s).
         ts_layoutInstanceId m = layout \<and> ts_tableId m = f g \<and> ts_groupId m = Some g)"
    by (rule bchoice [THEN exE])
  have "inj_on f ?G"
  proof (rule inj_onI)
    fix g g'
    assume g: "g \<in> ?G" and g': "g' \<in> ?G" and same: "f g = f g'"
    from f g obtain m where m: "m \<in> set (table_state s)" "ts_layoutInstanceId m = layout"
        "ts_tableId m = f g" "ts_groupId m = Some g"
      by blast
    from f g' obtain m' where m': "m' \<in> set (table_state s)" "ts_layoutInstanceId m' = layout"
        "ts_tableId m' = f g'" "ts_groupId m' = Some g'"
      by blast
    from same_key_same_row [OF pk m(1) m'(1)] m(2,3) m'(2,3) same have "m = m'" by simp
    with m(4) m'(4) show "g = g'" by simp
  qed
  moreover from f have "f ` ?G \<subseteq> set tableIds" by blast
  ultimately have "card ?G \<le> card (set tableIds)"
    by (intro card_inj_on_le) simp_all
  also have "\<dots> \<le> length tableIds" by (rule card_length)
  finally show ?thesis
    by (simp add: existing_groups_def distinct_card [symmetric] del: set_remdups)
qed

lemma within_limit:
  assumes "distinct (state_keys s)" "2 + length tableIds \<le> max_variable_number"
  shows "\<not> too_many (1 + length tableIds)" "\<not> too_many (2 + length tableIds)"
    "\<not> too_many (1 + length (existing_groups layout tableIds s))"
    "\<not> too_many (2 + length (existing_groups layout tableIds s))"
  using assms(2) length_existing_groups [OF assms(1), of layout tableIds]
  by (simp_all add: too_many_def)

section \<open>Reservations gate structural change\<close>

text \<open>
  Claim C1, as the handlers have it. In a store where a reservation of the instance
  itself (a row of \<open>reservations\<close> whose \<open>layoutInstanceId\<close> is the instance's) is bound
  to group \<open>G\<close>, ungrouping \<open>G\<close> answers 409 (Conflict); and so does every group request
  whose \<open>tableIds\<close> contain a table of the instance that is a member of \<open>G\<close> and are few
  enough for the handler's first query to be prepared (the instance id and the table ids
  within the store's limit on parameters), in a store with one \<open>table_state\<close> row per
  instance and table, as the primary key has it. In both cases the store that is
  returned is the store that was given: no row of \<open>table_state\<close>, \<open>table_groups\<close> or
  \<open>reservations\<close> has changed.
\<close>

theorem reservation_blocks_regrouping:
  assumes layout: "find_layout s date = Some layout"
    and r: "r \<in> set (reservations s)" "r_layoutInstanceId r = layout" "r_groupId r = G"
  shows "post_layout_ungroup date (JNum (of_int G)) s = (Conflict, s) \<and>
         (\<forall>tableIds.
            distinct (state_keys s) \<and> 1 + length tableIds \<le> max_variable_number \<and>
            (\<exists>m \<in> set (table_state s).
               ts_layoutInstanceId m = layout \<and> ts_groupId m = Some G \<and>
               ts_tableId m \<in> set tableIds) \<longrightarrow>
            post_layout_group date (Some tableIds) s = (Conflict, s))"
proof (intro conjI allI impI)
  from r have "\<exists>r \<in> set (reservations s).
      r_layoutInstanceId r = layout \<and> (of_int (r_groupId r) :: rat) = of_int G"
    by blast
  then show "post_layout_ungroup date (JNum (of_int G)) s = (Conflict, s)"
    using layout by (simp add: post_layout_ungroup_def)
next
  fix tableIds
  assume a: "distinct (state_keys s) \<and> 1 + length tableIds \<le> max_variable_number \<and>
      (\<exists>m \<in> set (table_state s).
         ts_layoutInstanceId m = layout \<and> ts_groupId m = Some G \<and> ts_tableId m \<in> set tableIds)"
  then obtain m where m: "m \<in> set (table_state s)" "ts_layoutInstanceId m = layout"
      "ts_groupId m = Some G" "ts_tableId m \<in> set tableIds"
    by blast
  from a have pk: "distinct (state_keys s)"
    and few: "1 + length tableIds \<le> max_variable_number"
    by simp_all
  from m have G: "G \<in> set (existing_groups layout tableIds s)"
    by (auto simp: set_existing_groups)
  then have ne: "existing_groups layout tableIds s \<noteq> []"
    by auto
  from few have select: "\<not> too_many (1 + length tableIds)"
    by (simp add: too_many_def)
  from few length_existing_groups [OF pk, of layout tableIds]
  have count: "\<not> too_many (1 + length (existing_groups layout tableIds s))"
    by (simp add: too_many_def)
  from G r have "reserved_count layout (existing_groups layout tableIds s) s > 0"
    unfolding reserved_count_pos by blast
  moreover from m have "tableIds \<noteq> []" by auto
  ultimately show "post_layout_group date (Some tableIds) s = (Conflict, s)"
    using layout ne select count by (simp add: post_layout_group_def Let_def)
qed

theorem reservation_blocks_regrouping_witness:
  "post_layout_ungroup ''2024-01-01'' (JNum 1) reserved_store = (Conflict, reserved_store) \<and>
   post_layout_group ''2024-01-01'' (Some [1, 3]) reserved_store = (Conflict, reserved_store)"
proof -
  have r: "smith \<in> set (reservations reserved_store)" "r_layoutInstanceId smith = 1"
      "r_groupId smith = 1"
    by (simp_all add: store_defs)
  have m: "distinct (state_keys reserved_store) \<and>
      1 + length [1, 3 :: int] \<le> max_variable_number \<and>
      (\<exists>m \<in> set (table_state reserved_store).
         ts_layoutInstanceId m = 1 \<and> ts_groupId m = Some 1 \<and> ts_tableId m \<in> set [1, 3])"
    by (simp add: state_keys_def max_variable_number_def store_defs)
  note inst = reservation_blocks_regrouping [OF find_layout_examples(4) r]
  from inst have "post_layout_ungroup ''2024-01-01'' (JNum (of_int 1)) reserved_store
      = (Conflict, reserved_store)"
    by (rule conjunct1)
  moreover from inst m
  have "post_layout_group ''2024-01-01'' (Some [1, 3]) reserved_store = (Conflict, reserved_store)"
    by blast
  ultimately show ?thesis by simp
qed

text \<open>
  The claim as stated has any reservation bound to \<open>G\<close> block the change. A
  reservation posted on another date with the id of \<open>G\<close> is bound to \<open>G\<close> and blocks
  nothing: both handlers look among the reservations of the request's own instance
  only. The ungroup request is answered 200, and the delete of the group row takes the
  reservation with it.
\<close>

theorem stray_reservation_counterexample:
  "map r_groupId (reservations crossed_store) = [1] \<and>
   post_layout_ungroup ''2024-01-01'' (JNum 1) crossed_store
     = (Ok (),
        crossed_store
          \<lparr>table_groups := [],
           table_state :=
             [\<lparr>ts_layoutInstanceId = 1, ts_tableId = 1, ts_x = 10, ts_y = 20, ts_groupId = None\<rparr>,
              \<lparr>ts_layoutInstanceId = 1, ts_tableId = 2, ts_x = 110, ts_y = 20, ts_groupId = None\<rparr>,
              \<lparr>ts_layoutInstanceId = 1, ts_tableId = 3, ts_x = 210, ts_y = 20, ts_groupId = None\<rparr>,
              \<lparr>ts_layoutInstanceId = 2, ts_tableId = 1, ts_x = 10, ts_y = 20, ts_groupId = None\<rparr>,
              \<lparr>ts_layoutInstanceId = 2, ts_tableId = 2, ts_x = 110, ts_y = 20, ts_groupId = None\<rparr>,
              \<lparr>ts_layoutInstanceId = 2, ts_tableId = 3, ts_x = 210, ts_y = 20, ts_groupId = None\<rparr>],
           reservations := []\<rparr>)"
  by (auto simp: post_layout_ungroup_def find_layout_def delete_table_groups_def store_defs)

section \<open>Idempotent instantiation\<close>

text \<open>
  Claim C5. For a date that has no layout instance yet, in a store whose \<open>table_state\<close>
  rows all reference an existing instance (the schema's foreign key), the first
  \<open>ensureLayoutInstance\<close> answers \<open>existed = false\<close> with a new id, the second answers
  \<open>existed = true\<close> with the same id and returns the store as it got it (no row is
  added), and the \<open>table_state\<close> rows of the instance are then, one for one and in the
  catalog's order: the instance id, the table's id, \<open>x = defaultX\<close>, \<open>y = defaultY\<close> and
  \<open>groupId\<close> null.
\<close>

theorem ensure_instance_idempotent:
  assumes fresh: "find_layout s date = None"
    and fk: "\<forall>m \<in> set (table_state s). ts_layoutInstanceId m \<in> l_id ` set (layout_instances s)"
  shows "\<exists>i s1. ensureLayoutInstance date s = ((i, False), s1) \<and>
           ensureLayoutInstance date s1 = ((i, True), s1) \<and>
           map (\<lambda>m. (ts_layoutInstanceId m, ts_tableId m, ts_x m, ts_y m, ts_groupId m))
             (filter (\<lambda>m. ts_layoutInstanceId m = i) (table_state s1))
           = map (\<lambda>t. (i, t_id t, t_defaultX t, t_defaultY t, None)) (tables s)"
proof -
  define i where "i = next_rowid (seq_layout_instances s) (map l_id (layout_instances s))"
  define s1 where "s1 = snd (ensureLayoutInstance date s)"
  have first: "ensureLayoutInstance date s = ((i, False), s1)"
    using fresh by (simp add: s1_def i_def ensureLayoutInstance_def Let_def)
  have s1: "s1 = s\<lparr>layout_instances := layout_instances s @ [\<lparr>l_id = i, l_date = date\<rparr>],
                   seq_layout_instances := i,
                   table_state := table_state s @ map (default_state i) (tables s)\<rparr>"
    using fresh by (simp add: s1_def i_def ensureLayoutInstance_def Let_def)
  have "find_layout s1 date = Some i"
    using find_layout_after_insert [OF fresh, of i] by (simp add: s1 find_layout_def)
  then have second: "ensureLayoutInstance date s1 = ((i, True), s1)"
    by (simp add: ensureLayoutInstance_def)
  have old: "filter (\<lambda>m. ts_layoutInstanceId m = i) (table_state s) = []"
  proof -
    have "ts_layoutInstanceId m \<noteq> i" if "m \<in> set (table_state s)" for m
    proof -
      from fk that have "ts_layoutInstanceId m \<in> set (map l_id (layout_instances s))" by simp
      then show ?thesis unfolding i_def by (metis next_rowid_fresh less_irrefl)
    qed
    then show ?thesis by (simp add: filter_empty_conv)
  qed
  have new: "filter (\<lambda>m. ts_layoutInstanceId m = i) (map (default_state i) (tables s))
      = map (default_state i) (tables s)"
    by (simp add: filter_map o_def default_state_def)
  have "map (\<lambda>m. (ts_layoutInstanceId m, ts_tableId m, ts_x m, ts_y m, ts_groupId m))
      (filter (\<lambda>m. ts_layoutInstanceId m = i) (table_state s1))
      = map (\<lambda>t. (i, t_id t, t_defaultX t, t_defaultY t, None)) (tables s)"
    by (simp add: s1 old new o_def default_state_def)
  with first second show ?thesis by blast
qed

theorem ensure_instance_idempotent_witness:
  "ensureLayoutInstance ''2024-02-02'' bistro_store = ((4, False), bistro_opened) \<and>
   ensureLayoutInstance ''2024-02-02'' bistro_opened = ((4, True), bistro_opened) \<and>
   map (\<lambda>m. (ts_layoutInstanceId m, ts_tableId m, ts_x m, ts_y m, ts_groupId m))
     (filter (\<lambda>m. ts_layoutInstanceId m = 4) (table_state bistro_opened))
     = [(4, 4, 15, 25, None), (4, 9, 40, 70, None)]"
proof -
  have fresh: "find_layout bistro_store ''2024-02-02'' = None"
    and fk: "\<forall>m \<in> set (table_state bistro_store).
      ts_layoutInstanceId m \<in> l_id ` set (layout_instances bistro_store)"
    by (simp_all add: find_layout_def store_defs)
  from ensure_instance_idempotent [OF fresh fk]
  obtain i s1 where first: "ensureLayoutInstance ''2024-02-02'' bistro_store = ((i, False), s1)"
    and second: "ensureLayoutInstance ''2024-02-02'' s1 = ((i, True), s1)"
    and rows: "map (\<lambda>m. (ts_layoutInstanceId m, ts_tableId m, ts_x m, ts_y m, ts_groupId m))
        (filter (\<lambda>m. ts_layoutInstanceId m = i) (table_state s1))
        = map (\<lambda>t. (i, t_id t, t_defaultX t, t_defaultY t, None)) (tables bistro_store)"
    by blast
  from first have "i = 4" "s1 = bistro_opened"
    by (simp_all add: bistro_opened_reached)
  with first second rows show ?thesis
    by (simp add: bistro_store_def)
qed

section \<open>The steps of the group handler\<close>


lemma set_group_simps [simp]:
  "table_groups (set_group v layout ids s) = table_groups s"
  "reservations (set_group v layout ids s) = reservations s"
  "layout_instances (set_group v layout ids s) = layout_instances s"
  "tables (set_group v layout ids s) = tables s"
  "seq_table_groups (set_group v layout ids s) = seq_table_groups s"
  "state_keys (set_group v layout ids s) = state_keys s"
  by (simp_all add: set_group_def state_keys_def)

lemma delete_table_groups_simps [simp]:
  "layout_instances (delete_table_groups P s) = layout_instances s"
  "tables (delete_table_groups P s) = tables s"
  "seq_table_groups (delete_table_groups P s) = seq_table_groups s"
  "table_groups (delete_table_groups P s) = filter (\<lambda>g. \<not> P g) (table_groups s)"
  "state_keys (delete_table_groups P s) = state_keys s"
  by (simp_all add: delete_table_groups_def state_keys_def Let_def split: option.splits)

lemma insert_group_simps [simp]:
  "layout_instances (snd (insert_group layout s)) = layout_instances s"
  "tables (snd (insert_group layout s)) = tables s"
  "table_state (snd (insert_group layout s)) = table_state s"
  "reservations (snd (insert_group layout s)) = reservations s"
  "table_groups (snd (insert_group layout s)) =
     table_groups s @ [\<lparr>g_id = fst (insert_group layout s), g_layoutInstanceId = layout\<rparr>]"
  "state_keys (snd (insert_group layout s)) = state_keys s"
  by (simp_all add: insert_group_def state_keys_def Let_def)

lemma find_layout_cong: "layout_instances s' = layout_instances s \<Longrightarrow> find_layout s' = find_layout s"
  by (simp add: find_layout_def fun_eq_iff)

lemma map_fixed: "x \<in> set xs \<Longrightarrow> f x = x \<Longrightarrow> x \<in> set (map f xs)"
  by force

text \<open>A row that keeps its group through the cascade of a delete.\<close>

lemma delete_keeps_row:
  assumes "m \<in> set (table_state s)" "ts_groupId m = Some g"
    and "\<forall>g' \<in> set (table_groups s). P g' \<longrightarrow> g_id g' \<noteq> g"
  shows "m \<in> set (table_state (delete_table_groups P s))"
proof -
  have "g \<notin> set (map g_id (filter P (table_groups s)))" using assms(3) by auto
  with assms(1,2) show ?thesis
    unfolding delete_table_groups_def Let_def by (simp del: set_map) (rule map_fixed, simp_all)
qed

lemma set_group_keeps_row:
  assumes "m \<in> set (table_state s)" "\<not> (ts_layoutInstanceId m = layout \<and> ts_tableId m \<in> set ids)"
  shows "m \<in> set (table_state (set_group v layout ids s))"
proof -
  let ?f = "\<lambda>r. if ts_layoutInstanceId r = layout \<and> ts_tableId r \<in> set ids
                 then r\<lparr>ts_groupId := v\<rparr> else r"
  from assms(2) have "?f m = m" by presburger
  with assms(1) have "m \<in> set (map ?f (table_state s))" by (intro map_fixed)
  then show ?thesis by (simp add: set_group_def)
qed

lemma set_group_row_cases:
  assumes "m' \<in> set (table_state (set_group v layout ids s))"
  shows "(m' \<in> set (table_state s) \<and> \<not> (ts_layoutInstanceId m' = layout \<and> ts_tableId m' \<in> set ids)) \<or>
         (ts_groupId m' = v \<and> ts_layoutInstanceId m' = layout \<and> ts_tableId m' \<in> set ids)"
  using assms unfolding set_group_def by (auto split: if_splits)

lemma set_group_assigns:
  assumes "(layout, t) \<in> set (state_keys s)" "t \<in> set ids"
  shows "\<exists>m \<in> set (table_state (set_group v layout ids s)).
           ts_layoutInstanceId m = layout \<and> ts_groupId m = v"
proof -
  from assms(1) obtain m where m: "m \<in> set (table_state s)" "ts_layoutInstanceId m = layout"
      "ts_tableId m = t"
    by (auto simp: state_keys_def)
  let ?f = "\<lambda>r. if ts_layoutInstanceId r = layout \<and> ts_tableId r \<in> set ids
                 then r\<lparr>ts_groupId := v\<rparr> else r"
  from m(1) have "?f m \<in> set (map ?f (table_state s))" by simp
  with m assms(2) have "m\<lparr>ts_groupId := v\<rparr> \<in> set (table_state (set_group v layout ids s))"
    by (simp add: set_group_def)
  with m show ?thesis by (intro bexI [of _ "m\<lparr>ts_groupId := v\<rparr>"]) simp_all
qed

lemma set_member_groups:
  "set (member_groups layout s) =
     {g. \<exists>m \<in> set (table_state s). ts_layoutInstanceId m = layout \<and> ts_groupId m = Some g}"
  by (auto simp: member_groups_def set_map_filter split: if_splits)

text \<open>Clearing the named tables and deleting the emptied groups keeps the invariant, and
  every member that is left is a row that was not named.\<close>

lemma clear_and_delete_members:
  assumes inv: "no_empty_groups layout s"
    and g: "g \<in> set (table_groups (delete_emptied layout gids (set_group None layout ids s)))"
      "g_layoutInstanceId g = layout"
    and gids: "gids = existing_groups layout ids s"
  shows "\<exists>m \<in> set (table_state (delete_emptied layout gids (set_group None layout ids s))).
           ts_layoutInstanceId m = layout \<and> ts_groupId m = Some (g_id g) \<and> ts_tableId m \<notin> set ids"
proof -
  let ?s1 = "set_group None layout ids s"
  let ?P = "\<lambda>g. g_layoutInstanceId g = layout \<and> g_id g \<in> set gids \<and>
                 g_id g \<notin> set (member_groups layout ?s1)"
  from g have g_old: "g \<in> set (table_groups s)" and keep: "\<not> ?P g"
    by (auto simp: delete_emptied_def)
  have "\<exists>m \<in> set (table_state ?s1). ts_layoutInstanceId m = layout \<and> ts_groupId m = Some (g_id g)"
  proof (cases "g_id g \<in> set gids")
    case True
    with keep g(2) have "g_id g \<in> set (member_groups layout ?s1)" by simp
    then show ?thesis by (simp add: set_member_groups)
  next
    case False
    from inv g_old g(2) obtain m where m: "m \<in> set (table_state s)"
        "ts_layoutInstanceId m = layout" "ts_groupId m = Some (g_id g)"
      unfolding no_empty_groups_def by blast
    with False have "ts_tableId m \<notin> set ids"
      unfolding gids set_existing_groups by blast
    with m have "m \<in> set (table_state ?s1)" by (intro set_group_keeps_row) simp_all
    with m show ?thesis by blast
  qed
  then obtain m where m: "m \<in> set (table_state ?s1)" "ts_layoutInstanceId m = layout"
      "ts_groupId m = Some (g_id g)"
    by blast
  from set_group_row_cases [OF m(1)] m(2,3) have notin: "ts_tableId m \<notin> set ids"
    by auto
  have "g_id g \<in> set (member_groups layout ?s1)"
    using m by (auto simp: set_member_groups)
  then have "\<forall>g' \<in> set (table_groups ?s1). ?P g' \<longrightarrow> g_id g' \<noteq> g_id g"
    by metis
  from delete_keeps_row [OF m(1) m(3) this]
  have "m \<in> set (table_state (delete_emptied layout gids ?s1))"
    by (simp add: delete_emptied_def)
  with m notin show ?thesis by blast
qed


lemma create_group_simps [simp]:
  "layout_instances (snd (create_group layout tableIds s)) = layout_instances s"
  "tables (snd (create_group layout tableIds s)) = tables s"
  "state_keys (snd (create_group layout tableIds s)) = state_keys s"
  by (simp_all add: create_group_def split_beta)

lemma post_layout_group_frame:
  "layout_instances (snd (post_layout_group date body s)) = layout_instances s \<and>
   tables (snd (post_layout_group date body s)) = tables s \<and>
   state_keys (snd (post_layout_group date body s)) = state_keys s"
  by (simp add: post_layout_group_def delete_emptied_def Let_def split: option.splits)

text \<open>
  With few enough table ids, in a store with one row per instance and table, every
  statement of the group handler is prepared: the request is refused for a reservation,
  or all its statements run.
\<close>

lemma post_layout_group_within_limit:
  assumes layout: "find_layout s date = Some layout"
    and ne: "tableIds \<noteq> []"
    and pk: "distinct (state_keys s)"
    and few: "2 + length tableIds \<le> max_variable_number"
  shows "post_layout_group date (Some tableIds) s =
     (let groupIds = existing_groups layout tableIds s;
          s2 = (if groupIds \<noteq> []
                then delete_emptied layout groupIds (set_group None layout tableIds s)
                else s)
      in if groupIds \<noteq> [] \<and> reserved_count layout groupIds s > 0 then (Conflict, s)
         else (Ok (fst (insert_group layout s2)),
               set_group (Some (fst (insert_group layout s2))) layout tableIds
                 (snd (insert_group layout s2))))"
  using layout ne within_limit [OF pk few]
  by (simp add: post_layout_group_def create_group_def Let_def split_beta)

lemma post_layout_ungroup_frame:
  "layout_instances (snd (post_layout_ungroup date groupId s)) = layout_instances s \<and>
   tables (snd (post_layout_ungroup date groupId s)) = tables s \<and>
   state_keys (snd (post_layout_ungroup date groupId s)) = state_keys s"
  by (simp add: post_layout_ungroup_def state_keys_def delete_table_groups_def Let_def o_def
      split: option.splits json.splits)

lemma group_keeps_no_empty_groups:
  assumes inv: "no_empty_groups layout s"
    and layout: "find_layout s date = Some layout"
    and pk: "distinct (state_keys s)"
    and named: "tableIds = [] \<or>
      ((\<exists>t \<in> set tableIds. (layout, t) \<in> set (state_keys s)) \<and>
       2 + length tableIds \<le> max_variable_number)"
  shows "no_empty_groups layout (snd (post_layout_group date (Some tableIds) s))"
proof (cases "tableIds = [] \<or>
    (existing_groups layout tableIds s \<noteq> [] \<and>
     reserved_count layout (existing_groups layout tableIds s) s > 0)")
  case True
  have "snd (post_layout_group date (Some tableIds) s) = s"
  proof (cases "tableIds = []")
    case True
    then show ?thesis by (simp add: post_layout_group_def)
  next
    case False
    with named have "2 + length tableIds \<le> max_variable_number" by simp
    from post_layout_group_within_limit [OF layout False pk this] True False
    show ?thesis by (simp add: Let_def)
  qed
  with inv show ?thesis by simp
next
  case False
  then have ne: "tableIds \<noteq> []" by simp
  with named have few: "2 + length tableIds \<le> max_variable_number" by simp
  define gids where "gids = existing_groups layout tableIds s"
  define s2 where "s2 = (if gids \<noteq> [] then delete_emptied layout gids (set_group None layout tableIds s) else s)"
  define new where "new = fst (insert_group layout s2)"
  define s3 where "s3 = snd (insert_group layout s2)"
  have result: "snd (post_layout_group date (Some tableIds) s) = set_group (Some new) layout tableIds s3"
    using False post_layout_group_within_limit [OF layout ne pk few]
    by (auto simp: Let_def gids_def s2_def new_def s3_def)
  have keys2: "state_keys s2 = state_keys s"
    by (simp add: s2_def delete_emptied_def)
  have members2: "\<exists>m \<in> set (table_state s2).
      ts_layoutInstanceId m = layout \<and> ts_groupId m = Some (g_id g) \<and> ts_tableId m \<notin> set tableIds"
    if g: "g \<in> set (table_groups s2)" "g_layoutInstanceId g = layout" for g
  proof (cases "gids = []")
    case True
    with g have "g \<in> set (table_groups s)" by (simp add: s2_def)
    with inv g(2) obtain m where m: "m \<in> set (table_state s)" "ts_layoutInstanceId m = layout"
        "ts_groupId m = Some (g_id g)"
      unfolding no_empty_groups_def by blast
    have "ts_tableId m \<notin> set tableIds"
    proof
      assume "ts_tableId m \<in> set tableIds"
      with m have "g_id g \<in> set (existing_groups layout tableIds s)"
        unfolding set_existing_groups by blast
      with True show False by (simp add: gids_def)
    qed
    with m True show ?thesis by (auto simp: s2_def)
  next
    case False
    with g have "g \<in> set (table_groups (delete_emptied layout gids (set_group None layout tableIds s)))"
      by (simp add: s2_def)
    from clear_and_delete_members [OF inv this g(2) gids_def] False
    show ?thesis by (simp add: s2_def)
  qed
  show ?thesis
    unfolding no_empty_groups_def result
  proof (intro ballI impI)
    fix g
    assume g: "g \<in> set (table_groups (set_group (Some new) layout tableIds s3))"
      "g_layoutInstanceId g = layout"
    then have "g \<in> set (table_groups s2) \<or> g = \<lparr>g_id = new, g_layoutInstanceId = layout\<rparr>"
      by (auto simp: s3_def new_def)
    then consider (old) "g \<in> set (table_groups s2)" | (new) "g_id g = new"
      by fastforce
    then show "\<exists>m \<in> set (table_state (set_group (Some new) layout tableIds s3)).
        ts_layoutInstanceId m = layout \<and> ts_groupId m = Some (g_id g)"
    proof cases
      case old
      from members2 [OF old g(2)] obtain m where m: "m \<in> set (table_state s2)"
          "ts_layoutInstanceId m = layout" "ts_groupId m = Some (g_id g)"
          "ts_tableId m \<notin> set tableIds"
        by blast
      then have "m \<in> set (table_state s3)" by (simp add: s3_def)
      then have "m \<in> set (table_state (set_group (Some new) layout tableIds s3))"
        using m(4) by (intro set_group_keeps_row) simp_all
      with m show ?thesis by blast
    next
      case new
      from False named obtain t where t: "t \<in> set tableIds" "(layout, t) \<in> set (state_keys s)"
        by blast
      then have "(layout, t) \<in> set (state_keys s3)"
        by (simp add: s3_def keys2)
      from set_group_assigns [OF this t(1), of "Some new"] new show ?thesis by simp
    qed
  qed
qed

lemma ungroup_keeps_no_empty_groups:
  assumes inv: "no_empty_groups layout s"
    and layout: "find_layout s date = Some layout"
  shows "no_empty_groups layout (snd (post_layout_ungroup date groupId s))"
proof (cases "\<exists>q. groupId = JNum q \<and>
    \<not> (\<exists>r \<in> set (reservations s). r_layoutInstanceId r = layout \<and> of_int (r_groupId r) = q)")
  case False
  then have "snd (post_layout_ungroup date groupId s) = s"
    using layout by (auto simp: post_layout_ungroup_def split: json.splits)
  with inv show ?thesis by simp
next
  case True
  then obtain q where q: "groupId = JNum q"
      "\<not> (\<exists>r \<in> set (reservations s). r_layoutInstanceId r = layout \<and> of_int (r_groupId r) = q)"
    by blast
  let ?f = "\<lambda>r. if ts_layoutInstanceId r = layout \<and> map_option of_int (ts_groupId r) = Some q
                 then r\<lparr>ts_groupId := None\<rparr> else r"
  let ?s1 = "s\<lparr>table_state := map ?f (table_state s)\<rparr>"
  let ?P = "\<lambda>g. of_int (g_id g) = q \<and> g_layoutInstanceId g = layout"
  have result: "snd (post_layout_ungroup date groupId s) = delete_table_groups ?P ?s1"
    using q layout by (auto simp: post_layout_ungroup_def)
  show ?thesis
    unfolding no_empty_groups_def result
  proof (intro ballI impI)
    fix g
    assume g: "g \<in> set (table_groups (delete_table_groups ?P ?s1))" "g_layoutInstanceId g = layout"
    then have g_old: "g \<in> set (table_groups s)" and other: "of_int (g_id g) \<noteq> q"
      by auto
    from inv g_old g(2) obtain m where m: "m \<in> set (table_state s)"
        "ts_layoutInstanceId m = layout" "ts_groupId m = Some (g_id g)"
      unfolding no_empty_groups_def by blast
    from m(3) other have "?f m = m" by simp
    with m(1) have "m \<in> set (map ?f (table_state s))" by (intro map_fixed)
    then have m1: "m \<in> set (table_state ?s1)" by simp
    have "\<forall>g' \<in> set (table_groups ?s1). ?P g' \<longrightarrow> g_id g' \<noteq> g_id g"
      using other by auto
    from delete_keeps_row [OF m1 m(3) this] m
    show "\<exists>m \<in> set (table_state (delete_table_groups ?P ?s1)).
        ts_layoutInstanceId m = layout \<and> ts_groupId m = Some (g_id g)"
      by blast
  qed
qed

lemma call_keeps_no_empty_groups:
  assumes inv: "no_empty_groups layout s"
    and layout: "find_layout s date = Some layout"
    and pk: "distinct (state_keys s)"
    and named: "admissible ids c"
    and rows: "\<forall>t \<in> set ids. (layout, t) \<in> set (state_keys s)"
  shows "no_empty_groups layout (call date c s) \<and>
         find_layout (call date c s) date = Some layout \<and>
         state_keys (call date c s) = state_keys s"
proof (cases c)
  case (Group body)
  have frame: "find_layout (call date c s) date = Some layout \<and>
      state_keys (call date c s) = state_keys s"
    using layout post_layout_group_frame [of date body s]
      find_layout_cong [of "snd (post_layout_group date body s)" s]
    by (simp add: Group)
  show ?thesis
  proof (cases body)
    case None
    with Group inv frame show ?thesis by (simp add: post_layout_group_def)
  next
    case (Some tableIds)
    with named Group rows
    have "tableIds = [] \<or>
        ((\<exists>t \<in> set tableIds. (layout, t) \<in> set (state_keys s)) \<and>
         2 + length tableIds \<le> max_variable_number)"
      by auto
    from group_keeps_no_empty_groups [OF inv layout pk this] frame show ?thesis
      by (simp add: Group Some)
  qed
next
  case (Ungroup groupId)
  from ungroup_keeps_no_empty_groups [OF inv layout, of groupId]
    post_layout_ungroup_frame [of date groupId s] layout
    find_layout_cong [of "snd (post_layout_ungroup date groupId s)" s]
  show ?thesis by (simp add: Ungroup)
qed

lemma states_after_no_empty_groups:
  assumes "no_empty_groups layout s"
    and "find_layout s date = Some layout"
    and "distinct (state_keys s)"
    and "\<forall>c \<in> set calls. admissible ids c"
    and "\<forall>t \<in> set ids. (layout, t) \<in> set (state_keys s)"
  shows "\<forall>s' \<in> set (states_after date calls s). no_empty_groups layout s'"
  using assms
proof (induction calls arbitrary: s)
  case Nil
  then show ?case by simp
next
  case (Cons c calls)
  from Cons.prems have c: "admissible ids c" by simp
  note step = call_keeps_no_empty_groups [OF Cons.prems(1,2,3) c Cons.prems(5)]
  have "\<forall>s' \<in> set (states_after date calls (call date c s)). no_empty_groups layout s'"
    using step Cons.prems(3,4,5) by (intro Cons.IH) simp_all
  with step show ?case by simp
qed

section \<open>No empty groups\<close>

text \<open>
  Claim C2, as the handlers have it. Take a store that satisfies the schema (the ids of
  the catalog are distinct, there is one \<open>table_state\<close> row per instance and table, and
  every \<open>table_state\<close> row and every group row belongs to an existing instance), open a
  date that has no instance yet, and run any sequence of group and ungroup requests for
  that date in which every group request that reaches the store names at least one
  table of the catalog and has few enough table ids for every statement of the handler
  to be prepared (two parameters and the table ids within the store's limit). Then
  after each request every group row of the instance has a \<open>table_state\<close> row of the
  instance whose \<open>groupId\<close> is its id.
\<close>

theorem no_empty_groups_after_each_call:
  assumes fresh: "find_layout s0 date = None"
    and catalog: "distinct (map t_id (tables s0))"
    and pk: "distinct (state_keys s0)"
    and fk_state: "\<forall>m \<in> set (table_state s0).
        ts_layoutInstanceId m \<in> l_id ` set (layout_instances s0)"
    and fk_group: "\<forall>g \<in> set (table_groups s0).
        g_layoutInstanceId g \<in> l_id ` set (layout_instances s0)"
    and opened: "ensureLayoutInstance date s0 = ((layout, existed), s)"
    and calls: "\<forall>c \<in> set calls. admissible (map t_id (tables s0)) c"
  shows "\<forall>s' \<in> set (states_after date calls s). no_empty_groups layout s'"
proof -
  have layout: "layout = next_rowid (seq_layout_instances s0) (map l_id (layout_instances s0))"
    and s: "s = s0\<lparr>layout_instances := layout_instances s0 @ [\<lparr>l_id = layout, l_date = date\<rparr>],
                  seq_layout_instances := layout,
                  table_state := table_state s0 @ map (default_state layout) (tables s0)\<rparr>"
    using fresh opened by (auto simp: ensureLayoutInstance_def Let_def)
  have new_id: "i \<noteq> layout" if "i \<in> l_id ` set (layout_instances s0)" for i
  proof -
    from that have "i \<in> set (map l_id (layout_instances s0))" by simp
    then show ?thesis unfolding layout by (metis next_rowid_fresh less_irrefl)
  qed
  from fk_group new_id have inv: "no_empty_groups layout s"
    by (auto simp: no_empty_groups_def s)
  have found: "find_layout s date = Some layout"
    using fresh by (simp add: s find_layout_def find_snoc_None)
  have keys: "state_keys s = state_keys s0 @ map (\<lambda>t. (layout, t_id t)) (tables s0)"
    by (simp add: s state_keys_def default_state_def o_def)
  have "distinct (map (\<lambda>t. (layout, t_id t)) (tables s0))"
    using catalog by (simp add: distinct_map inj_on_def)
  moreover have "set (state_keys s0) \<inter> set (map (\<lambda>t. (layout, t_id t)) (tables s0)) = {}"
    using fk_state new_id by (auto simp: state_keys_def)
  ultimately have pk': "distinct (state_keys s)"
    using pk by (simp add: keys)
  have rows: "\<forall>t \<in> set (map t_id (tables s0)). (layout, t) \<in> set (state_keys s)"
    by (auto simp: keys)
  from states_after_no_empty_groups [OF inv found pk' calls rows] show ?thesis .
qed

theorem no_empty_groups_after_each_call_witness:
  "list_all (no_empty_groups 1)
     (states_after ''2024-01-01''
        [Group (Some [1, 2]), Group (Some [2, 3]), Ungroup (JNum 1), Group (Some [3, 99])]
        opened_store)"
proof -
  have catalog: "distinct (map t_id (tables seeded_store))"
    and pk: "distinct (state_keys seeded_store)"
    and fk_state: "\<forall>m \<in> set (table_state seeded_store).
      ts_layoutInstanceId m \<in> l_id ` set (layout_instances seeded_store)"
    and fk_group: "\<forall>g \<in> set (table_groups seeded_store).
      g_layoutInstanceId g \<in> l_id ` set (layout_instances seeded_store)"
    by (simp_all add: state_keys_def store_defs)
  have calls: "\<forall>c \<in> set [Group (Some [1, 2]), Group (Some [2, 3]), Ungroup (JNum 1),
      Group (Some [3, 99])]. admissible (map t_id (tables seeded_store)) c"
    by (auto simp: max_variable_number_def store_defs)
  from no_empty_groups_after_each_call
    [OF find_layout_examples(1) catalog pk fk_state fk_group opened_store_reached calls]
  show ?thesis by (simp only: list_all_iff)
qed

text \<open>
  Without the first condition on the requests the invariant fails: a group request
  whose \<open>tableIds\<close> match no row of the instance still inserts a group row, and that
  group has no member.
\<close>

theorem empty_group_counterexample:
  "\<not> no_empty_groups 1
       (call ''2024-01-01'' (Group (Some [99]))
          (snd (ensureLayoutInstance ''2024-01-01'' seeded_store)))"
  unfolding opened_store_reached snd_conv
  by (simp add: post_layout_group_def create_group_def limit_defs find_layout_def
      existing_groups_def List.map_filter_def insert_group_def set_group_def next_rowid_def
      no_empty_groups_def store_defs)

text \<open>
  Without the second condition it fails as well: with table 1 named 32765 times on the
  opened date, the group row is inserted, the \<open>UPDATE\<close> that would assign it cannot be
  prepared, and the answer is 500 with the group row left without a member.
\<close>

lemma long_request_leaves_empty_group:
  "post_layout_group ''2024-01-01'' (Some (replicate 32765 1)) opened_store
     = (ServerError,
        opened_store\<lparr>table_groups := [\<lparr>g_id = 1, g_layoutInstanceId = 1\<rparr>],
                      seq_table_groups := 1\<rparr>)"
  "\<not> no_empty_groups 1
       (opened_store\<lparr>table_groups := [\<lparr>g_id = 1, g_layoutInstanceId = 1\<rparr>],
                      seq_table_groups := 1\<rparr>)"
proof -
  let ?ids = "replicate 32765 (1 :: int)"
  have ids: "set ?ids = {1}" "?ids \<noteq> []" "length ?ids = 32765"
    by simp_all
  have gids: "existing_groups 1 ?ids opened_store = []"
    by (simp add: existing_groups_def List.map_filter_def ids store_defs)
  have "post_layout_group ''2024-01-01'' (Some ?ids) opened_store = create_group 1 ?ids opened_store"
    by (simp add: post_layout_group_def find_layout_examples gids ids limit_defs)
  also have "\<dots> = (ServerError, snd (insert_group 1 opened_store))"
    by (simp add: create_group_def split_beta ids limit_defs)
  finally show "post_layout_group ''2024-01-01'' (Some ?ids) opened_store
     = (ServerError,
        opened_store\<lparr>table_groups := [\<lparr>g_id = 1, g_layoutInstanceId = 1\<rparr>],
                      seq_table_groups := 1\<rparr>)"
    by (simp add: insert_group_def next_rowid_def store_defs)
  show "\<not> no_empty_groups 1
       (opened_store\<lparr>table_groups := [\<lparr>g_id = 1, g_layoutInstanceId = 1\<rparr>],
                      seq_table_groups := 1\<rparr>)"
    by (simp add: no_empty_groups_def store_defs)
qed

section \<open>Table update and the snapshot\<close>

lemma set_p_tables:
  "set (p_tables (fetchLayoutPayload layout s)) =
     {join_table r t | r t. r \<in> set (table_state s) \<and> ts_layoutInstanceId r = layout \<and>
        t \<in> set (tables s) \<and> t_id t = ts_tableId r}"
  by (auto simp: fetchLayoutPayload_def Let_def)

lemma set_snapshot_xy:
  "set (snapshot_xy (fetchLayoutPayload layout s) tableId) =
     {(ts_x r, ts_y r) | r. r \<in> set (table_state s) \<and> ts_layoutInstanceId r = layout \<and>
        ts_tableId r = tableId \<and> tableId \<in> t_id ` set (tables s)}"
  (is "?L = ?R")
proof (intro set_eqI iffI)
  fix xy
  assume "xy \<in> ?L"
  then obtain e where e: "e \<in> set (p_tables (fetchLayoutPayload layout s))"
      "lt_tableId e = tableId" "xy = (lt_x e, lt_y e)"
    by (auto simp: snapshot_xy_def)
  from e(1) obtain r t where rt: "e = join_table r t" "r \<in> set (table_state s)"
      "ts_layoutInstanceId r = layout" "t \<in> set (tables s)" "t_id t = ts_tableId r"
    unfolding set_p_tables by blast
  with e(2,3) have "xy = (ts_x r, ts_y r)" "ts_tableId r = tableId"
    by (simp_all add: join_table_def)
  moreover from rt(4,5) have "ts_tableId r \<in> t_id ` set (tables s)"
    by (metis imageI)
  ultimately show "xy \<in> ?R" using rt by blast
next
  fix xy
  assume "xy \<in> ?R"
  then obtain r t where rt: "xy = (ts_x r, ts_y r)" "r \<in> set (table_state s)"
      "ts_layoutInstanceId r = layout" "ts_tableId r = tableId" "t \<in> set (tables s)"
      "t_id t = tableId"
    by auto
  then have "join_table r t \<in> set (p_tables (fetchLayoutPayload layout s))"
    unfolding set_p_tables by auto
  moreover have "lt_tableId (join_table r t) = tableId" "xy = (lt_x (join_table r t), lt_y (join_table r t))"
    using rt by (simp_all add: join_table_def)
  ultimately show "xy \<in> ?L"
    unfolding snapshot_xy_def by force
qed


lemma Math_round_examples:
  "Math_round (25 / 2) = 13" "Math_round (- (7 / 4)) = - 2"
  "Math_round (- 40) = - 40" "Math_round 20 = 20"
  by code_simp+

lemma map_applied: "x \<in> set xs \<Longrightarrow> f x \<in> set (map f xs)"
  by simp

lemma snapshot_xy_iff:
  "xy \<in> set (snapshot_xy (fetchLayoutPayload layout s) tableId) \<longleftrightarrow>
     (\<exists>r \<in> set (table_state s).
        ts_layoutInstanceId r = layout \<and> ts_tableId r = tableId \<and> xy = (ts_x r, ts_y r)) \<and>
     tableId \<in> t_id ` set (tables s)"
  unfolding set_snapshot_xy by blast

text \<open>
  Claim C6, as the handler has it. For a date with a layout instance and a table that has
  a \<open>table_state\<close> row there and a row in the catalog, updating the position with finite
  \<open>x\<close> and \<open>y\<close> answers 200, and the snapshot of the date then shows that table at
  \<open>Math.round(x)\<close>, \<open>Math.round(y)\<close> and at nothing else: the inputs rounded to the
  nearest integer, negative values included.
\<close>

theorem position_round_trip:
  assumes layout: "find_layout s date = Some layout"
    and row: "(layout, tableId) \<in> set (state_keys s)"
    and catalog: "tableId \<in> t_id ` set (tables s)"
  shows "\<exists>s' p. put_layout_table date tableId (JNum x) (JNum y) JUndefined s = (Ok (), s') \<and>
           get_layout date s' = Ok p \<and>
           set (snapshot_xy p tableId) = {(Math_round x, Math_round y)}"
proof -
  define hit where "hit r \<longleftrightarrow> ts_layoutInstanceId r = layout \<and> ts_tableId r = tableId"
    for r :: table_state_row
  define f where "f r = (if hit r then r\<lparr>ts_x := Math_round x, ts_y := Math_round y\<rparr> else r)"
    for r :: table_state_row
  define s' where "s' = s\<lparr>table_state := map f (table_state s)\<rparr>"
  have rows: "table_state s' = map f (table_state s)" and cat: "tables s' = tables s"
    by (simp_all add: s'_def)
  have f_hit: "hit (f r) = hit r" for r
    by (simp add: f_def hit_def)
  have f_xy: "(ts_x (f r), ts_y (f r)) = (Math_round x, Math_round y)" if "hit r" for r
    using that by (simp add: f_def)
  have "(\<lambda>r. if ts_layoutInstanceId r = layout \<and> ts_tableId r = tableId
             then apply_updates (Some (Math_round x)) (Some (Math_round y)) None r else r) = f"
    by (simp add: fun_eq_iff f_def hit_def apply_updates_def)
  then have put: "put_layout_table date tableId (JNum x) (JNum y) JUndefined s = (Ok (), s')"
    using layout
    by (simp add: put_layout_table_def round_field_def group_field_def s'_def)
  have "find_layout s' date = Some layout"
    using layout by (simp add: find_layout_def s'_def)
  then have get: "get_layout date s' = Ok (fetchLayoutPayload layout s')"
    by (simp add: get_layout_def)
  from row obtain m where m: "m \<in> set (table_state s)" "hit m"
    by (auto simp: state_keys_def hit_def)
  have "xy \<in> set (snapshot_xy (fetchLayoutPayload layout s') tableId) \<longleftrightarrow>
      xy = (Math_round x, Math_round y)" for xy
  proof
    assume "xy \<in> set (snapshot_xy (fetchLayoutPayload layout s') tableId)"
    then obtain r' where r': "r' \<in> set (table_state s')" "hit r'" "xy = (ts_x r', ts_y r')"
      unfolding snapshot_xy_iff hit_def by blast
    from r'(1) obtain r where r: "r \<in> set (table_state s)" "r' = f r"
      unfolding rows set_map by (rule imageE)
    from r'(2) have "hit r" unfolding r(2) f_hit .
    from f_xy [OF this] r'(3) show "xy = (Math_round x, Math_round y)"
      unfolding r(2) by simp
  next
    assume xy: "xy = (Math_round x, Math_round y)"
    from map_applied [OF m(1), of f] have "f m \<in> set (table_state s')"
      unfolding rows .
    moreover from m(2) have "hit (f m)" unfolding f_hit .
    moreover from f_xy [OF m(2)] have "xy = (ts_x (f m), ts_y (f m))"
      unfolding xy by simp
    ultimately have "\<exists>r \<in> set (table_state s').
        ts_layoutInstanceId r = layout \<and> ts_tableId r = tableId \<and> xy = (ts_x r, ts_y r)"
      unfolding hit_def by (intro bexI [of _ "f m"] conjI) simp_all
    with catalog show "xy \<in> set (snapshot_xy (fetchLayoutPayload layout s') tableId)"
      unfolding snapshot_xy_iff cat by simp
  qed
  then have "set (snapshot_xy (fetchLayoutPayload layout s') tableId)
      = {(Math_round x, Math_round y)}"
    by blast
  with put get show ?thesis by blast
qed


theorem position_round_trip_witness:
  "put_layout_table ''2024-01-01'' 2 (JNum (25 / 2)) (JNum (- (7 / 4))) JUndefined grouped_store
     = (Ok (), grouped_store
          \<lparr>table_state :=
             [\<lparr>ts_layoutInstanceId = 1, ts_tableId = 1, ts_x = 10, ts_y = 20, ts_groupId = Some 1\<rparr>,
              \<lparr>ts_layoutInstanceId = 1, ts_tableId = 2, ts_x = 13, ts_y = - 2, ts_groupId = Some 1\<rparr>,
              \<lparr>ts_layoutInstanceId = 1, ts_tableId = 3, ts_x = 210, ts_y = 20, ts_groupId = None\<rparr>]\<rparr>) \<and>
   set (snapshot_xy
          (fetchLayoutPayload 1
             (snd (put_layout_table ''2024-01-01'' 2 (JNum (25 / 2)) (JNum (- (7 / 4))) JUndefined
                grouped_store))) 2)
     = {(13, - 2)}"
proof -
  have row: "(1, 2) \<in> set (state_keys grouped_store)"
    and catalog: "2 \<in> t_id ` set (tables grouped_store)"
    by (simp_all add: state_keys_def store_defs)
  from position_round_trip [OF find_layout_examples(3) row catalog, of "25 / 2" "- (7 / 4)"]
  obtain s' p where put: "put_layout_table ''2024-01-01'' 2 (JNum (25 / 2)) (JNum (- (7 / 4)))
        JUndefined grouped_store = (Ok (), s')"
    and get: "get_layout ''2024-01-01'' s' = Ok p"
    and xy: "set (snapshot_xy p 2) = {(Math_round (25 / 2), Math_round (- (7 / 4)))}"
    by blast
  have s': "s' = grouped_store
          \<lparr>table_state :=
             [\<lparr>ts_layoutInstanceId = 1, ts_tableId = 1, ts_x = 10, ts_y = 20, ts_groupId = Some 1\<rparr>,
              \<lparr>ts_layoutInstanceId = 1, ts_tableId = 2, ts_x = 13, ts_y = - 2, ts_groupId = Some 1\<rparr>,
              \<lparr>ts_layoutInstanceId = 1, ts_tableId = 3, ts_x = 210, ts_y = 20, ts_groupId = None\<rparr>]\<rparr>"
    using put
    by (simp add: put_layout_table_def find_layout_def round_field_def group_field_def
        apply_updates_def Math_round_examples store_defs)
  have "find_layout s' ''2024-01-01'' = Some 1"
    by (simp add: s' find_layout_def store_defs)
  with get have p: "p = fetchLayoutPayload 1 s'"
    by (simp add: get_layout_def)
  from xy p put s' show ?thesis by (simp add: Math_round_examples)
qed

text \<open>
  The handler does not clamp: \<open>x = -40\<close> is stored and shown as \<open>-40\<close>, where the
  specification's rounding-and-clamping gives \<open>0\<close>.
\<close>

theorem negative_coordinate_counterexample:
  "snapshot_xy
     (fetchLayoutPayload 1
        (snd (put_layout_table ''2024-01-01'' 3 (JNum (- 40)) (JNum 20) JUndefined opened_store)))
     3 = [(- 40, 20)] \<and>
   spec_clamped_round (- 40) = 0"
  by (simp add: put_layout_table_def find_layout_def round_field_def group_field_def
      apply_updates_def Math_round_examples snapshot_xy_def fetchLayoutPayload_def
      join_table_def spec_clamped_round_def store_defs)

section \<open>Updating a table that has no row\<close>




section \<open>The group field of the table update\<close>

text \<open>
  Claim C10, as the handler has it. For a date with a layout instance, a body whose
  \<open>groupId\<close> is \<open>null\<close>, or a number that is the id of a group row, is answered 200 and
  the value is stored in the \<open>groupId\<close> of the table's row; the returned store differs
  from the given one in \<open>table_state\<close> only, so no reservation is consulted and no group
  row is created or deleted. A finite number that is no group's id is refused by the
  foreign key when the table has a row: 500, and the store unchanged. And there is a
  store (table 3 alone in group 1) where clearing the \<open>groupId\<close> of the last member
  leaves the group row with no member.
\<close>

theorem group_field_written_directly:
  assumes layout: "find_layout s date = Some layout"
  shows "put_layout_table date tableId JUndefined JUndefined JNull s =
           (Ok (),
            s\<lparr>table_state :=
                map (\<lambda>r. if ts_layoutInstanceId r = layout \<and> ts_tableId r = tableId
                         then r\<lparr>ts_groupId := None\<rparr> else r)
                  (table_state s)\<rparr>) \<and>
         (\<forall>g \<in> set (table_groups s).
            put_layout_table date tableId JUndefined JUndefined (JNum (of_int (g_id g))) s =
              (Ok (),
               s\<lparr>table_state :=
                   map (\<lambda>r. if ts_layoutInstanceId r = layout \<and> ts_tableId r = tableId
                            then r\<lparr>ts_groupId := Some (g_id g)\<rparr> else r)
                     (table_state s)\<rparr>)) \<and>
         (\<forall>q. (layout, tableId) \<in> set (state_keys s) \<and> \<not> references_group s q \<longrightarrow>
            put_layout_table date tableId JUndefined JUndefined (JNum q) s = (ServerError, s)) \<and>
         no_empty_groups 1 lone_store \<and>
         \<not> no_empty_groups 1
             (snd (put_layout_table ''2024-01-01'' 3 JUndefined JUndefined JNull lone_store))"
proof (intro conjI ballI allI impI)
  show "put_layout_table date tableId JUndefined JUndefined JNull s =
           (Ok (),
            s\<lparr>table_state :=
                map (\<lambda>r. if ts_layoutInstanceId r = layout \<and> ts_tableId r = tableId
                         then r\<lparr>ts_groupId := None\<rparr> else r)
                  (table_state s)\<rparr>)"
    using layout
    by (simp add: put_layout_table_def round_field_def group_field_def apply_updates_def)
next
  fix g
  assume "g \<in> set (table_groups s)"
  then have "references_group s (of_int (g_id g))"
    unfolding references_group_def by blast
  then show "put_layout_table date tableId JUndefined JUndefined (JNum (of_int (g_id g))) s =
              (Ok (),
               s\<lparr>table_state :=
                   map (\<lambda>r. if ts_layoutInstanceId r = layout \<and> ts_tableId r = tableId
                            then r\<lparr>ts_groupId := Some (g_id g)\<rparr> else r)
                     (table_state s)\<rparr>)"
    using layout
    by (simp add: put_layout_table_def round_field_def group_field_def apply_updates_def)
next
  fix q
  assume "(layout, tableId) \<in> set (state_keys s) \<and> \<not> references_group s q"
  then have "\<exists>r \<in> set (table_state s). ts_layoutInstanceId r = layout \<and> ts_tableId r = tableId"
    and "\<not> references_group s q"
    by (auto simp: state_keys_def)
  then show "put_layout_table date tableId JUndefined JUndefined (JNum q) s = (ServerError, s)"
    using layout
    by (simp add: put_layout_table_def round_field_def group_field_def)
next
  show "no_empty_groups 1 lone_store"
    by (simp add: no_empty_groups_def store_defs)
next
  show "\<not> no_empty_groups 1
      (snd (put_layout_table ''2024-01-01'' 3 JUndefined JUndefined JNull lone_store))"
    by (simp add: put_layout_table_def find_layout_def round_field_def group_field_def
        apply_updates_def no_empty_groups_def store_defs)
qed

theorem group_field_written_directly_witness:
  "put_layout_table ''2024-01-01'' 3 JUndefined JUndefined (JNum 1) reserved_store =
     (Ok (),
      reserved_store
        \<lparr>table_state :=
           [\<lparr>ts_layoutInstanceId = 1, ts_tableId = 1, ts_x = 10, ts_y = 20, ts_groupId = Some 1\<rparr>,
            \<lparr>ts_layoutInstanceId = 1, ts_tableId = 2, ts_x = 110, ts_y = 20, ts_groupId = Some 1\<rparr>,
            \<lparr>ts_layoutInstanceId = 1, ts_tableId = 3, ts_x = 210, ts_y = 20, ts_groupId = Some 1\<rparr>]\<rparr>) \<and>
   put_layout_table ''2024-01-01'' 3 JUndefined JUndefined (JNum (3 / 2)) reserved_store =
     (ServerError, reserved_store)"
proof -
  have g: "\<lparr>g_id = 1, g_layoutInstanceId = 1\<rparr> \<in> set (table_groups reserved_store)"
    and row: "(1, 3) \<in> set (state_keys reserved_store)"
    and no: "\<not> references_group reserved_store (3 / 2)"
    by (simp_all add: state_keys_def references_group_def store_defs)
  note inst = group_field_written_directly [OF find_layout_examples(4), of 3]
  from inst g have "put_layout_table ''2024-01-01'' 3 JUndefined JUndefined
      (JNum (of_int (g_id \<lparr>g_id = 1, g_layoutInstanceId = 1\<rparr>))) reserved_store =
     (Ok (),
      reserved_store
        \<lparr>table_state :=
           map (\<lambda>r. if ts_layoutInstanceId r = 1 \<and> ts_tableId r = 3
                    then r\<lparr>ts_groupId := Some (g_id \<lparr>g_id = 1, g_layoutInstanceId = 1\<rparr>)\<rparr> else r)
             (table_state reserved_store)\<rparr>)"
    by blast
  moreover from inst row no
  have "put_layout_table ''2024-01-01'' 3 JUndefined JUndefined (JNum (3 / 2)) reserved_store =
     (ServerError, reserved_store)"
    by blast
  ultimately show ?thesis by (simp add: store_defs)
qed

text \<open>
  The claim as stated has every finite number written: \<open>groupId = 7\<close>, with no group 7,
  is not.
\<close>

theorem unknown_group_counterexample:
  "isFinite (JNum 7) \<and>
   put_layout_table ''2024-01-01'' 1 JUndefined JUndefined (JNum 7) opened_store
     = (ServerError, opened_store) \<and>
   map ts_groupId (table_state opened_store) = [None, None, None]"
  by (simp add: put_layout_table_def find_layout_def round_field_def group_field_def
      references_group_def store_defs)

section \<open>The branches of the reservation handler\<close>

lemma post_layout_reservation_rejects:
  "\<not> fields_present body \<Longrightarrow> post_layout_reservation date body now s = (BadRequest, s)"
  unfolding post_layout_reservation_def fields_present_def by presburger

lemma post_layout_reservation_create:
  assumes "find_layout s date = Some layout"
    and "\<not> isFinite (b_reservationId body)"
    and "b_groupId body = JNum groupId" "b_partySize body = JNum partySize"
    and "truthy (b_time body)" "truthy (b_name body)"
  shows "post_layout_reservation date body now s =
     (if \<not> references_group s groupId then (ServerError, s)
      else
        (Ok \<lparr>rp_id = of_int (next_rowid (seq_reservations s) (map r_id (reservations s))),
             rp_groupId = groupId, rp_time = b_time body, rp_name = b_name body,
             rp_partySize = partySize, rp_notes = notes_or_null (b_notes body)\<rparr>,
         s\<lparr>reservations :=
             reservations s @
               [\<lparr>r_id = next_rowid (seq_reservations s) (map r_id (reservations s)),
                 r_layoutInstanceId = layout, r_groupId = \<lfloor>groupId\<rfloor>,
                 r_time = b_time body, r_name = b_name body, r_partySize = partySize,
                 r_notes = notes_or_null (b_notes body),
                 r_createdAt = now, r_updatedAt = now\<rparr>],
           seq_reservations := next_rowid (seq_reservations s) (map r_id (reservations s))\<rparr>))"
  using assms
  by (cases "b_reservationId body") (simp_all add: post_layout_reservation_def Let_def)

lemma post_layout_reservation_update:
  assumes "find_layout s date = Some layout"
    and "b_reservationId body = JNum reservationId"
    and "b_groupId body = JNum groupId" "b_partySize body = JNum partySize"
    and "truthy (b_time body)" "truthy (b_name body)"
  shows "post_layout_reservation date body now s =
     (if \<not> (\<exists>r \<in> set (reservations s).
               of_int (r_id r) = reservationId \<and> r_layoutInstanceId r = layout)
      then (NotFound, s)
      else
        (Ok \<lparr>rp_id = reservationId, rp_groupId = groupId, rp_time = b_time body,
             rp_name = b_name body, rp_partySize = partySize,
             rp_notes = notes_or_null (b_notes body)\<rparr>,
         s\<lparr>reservations :=
             map (\<lambda>r. if of_int (r_id r) = reservationId
                      then r\<lparr>r_time := b_time body, r_name := b_name body,
                             r_partySize := partySize,
                             r_notes := notes_or_null (b_notes body),
                             r_updatedAt := now\<rparr>
                      else r)
               (reservations s)\<rparr>))"
  using assms by (simp add: post_layout_reservation_def)

lemma fields_presentE:
  assumes "fields_present body"
  obtains groupId partySize where "b_groupId body = JNum groupId" "b_partySize body = JNum partySize"
    "truthy (b_time body)" "truthy (b_name body)"
  using assms unfolding fields_present_def
  by (cases "b_groupId body"; cases "b_partySize body") simp_all


lemma post_layout_reservation_writes:
  assumes "snd (post_layout_reservation date body now s) \<noteq> s"
  shows "fields_present body \<and> (\<exists>reply. fst (post_layout_reservation date body now s) = Ok reply)"
proof -
  have present: "fields_present body"
  proof (rule ccontr)
    assume "\<not> fields_present body"
    then have "post_layout_reservation date body now s = (BadRequest, s)"
      by (rule post_layout_reservation_rejects)
    with assms show False by simp
  qed
  then obtain groupId partySize where fields: "b_groupId body = JNum groupId"
      "b_partySize body = JNum partySize" "truthy (b_time body)" "truthy (b_name body)"
    by (rule fields_presentE)
  show ?thesis
  proof (cases "find_layout s date")
    case None
    with fields have "post_layout_reservation date body now s = (NotFound, s)"
      by (simp add: post_layout_reservation_def)
    with assms show ?thesis by simp
  next
    case (Some layout)
    show ?thesis
    proof (cases "isFinite (b_reservationId body)")
      case True
      then obtain reservationId where "b_reservationId body = JNum reservationId"
        by (cases "b_reservationId body") simp_all
      from post_layout_reservation_update [OF Some this fields, of now] assms present
      show ?thesis by (auto split: if_splits)
    next
      case False
      from post_layout_reservation_create [OF Some False fields, of now] assms present
      show ?thesis by (auto split: if_splits)
    qed
  qed
qed

lemma post_layout_reservation_frame:
  assumes "isFinite (b_reservationId body)"
  shows "map binding (reservations (snd (post_layout_reservation date body now s)))
           = map binding (reservations s) \<and>
         (snd (post_layout_reservation date body now s))\<lparr>reservations := reservations s\<rparr> = s"
proof (cases "fields_present body")
  case False
  then show ?thesis by (simp add: post_layout_reservation_rejects)
next
  case True
  then obtain groupId partySize where fields: "b_groupId body = JNum groupId"
      "b_partySize body = JNum partySize" "truthy (b_time body)" "truthy (b_name body)"
    by (rule fields_presentE)
  from assms obtain reservationId where rid: "b_reservationId body = JNum reservationId"
    by (cases "b_reservationId body") simp_all
  show ?thesis
  proof (cases "find_layout s date")
    case None
    with fields show ?thesis by (simp add: post_layout_reservation_def)
  next
    case (Some layout)
    from post_layout_reservation_update [OF Some rid fields, of now]
    show ?thesis by (simp add: binding_def)
  qed
qed

section \<open>What the reservation handler validates\<close>

text \<open>
  Claim C3, as the handler has it. The request is answered 400 and nothing is written
  whenever \<open>groupId\<close> or \<open>partySize\<close> is not a finite number, or \<open>time\<close> or \<open>name\<close> is
  missing or empty; a request that changes the store has passed these presence checks
  and is answered 200. Nothing more is validated: not the form of \<open>time\<close>, not that
  \<open>partySize\<close> is a positive integer, not that the group belongs to the instance. A
  create whose \<open>groupId\<close> is the id of no group row at all is refused by the foreign
  key: 500, and nothing written.
\<close>

theorem reservation_checks_presence_only:
  "(\<not> fields_present body \<longrightarrow>
      post_layout_reservation date body now s = (BadRequest, s)) \<and>
   (snd (post_layout_reservation date body now s) \<noteq> s \<longrightarrow>
      fields_present body \<and>
      (\<exists>reply. fst (post_layout_reservation date body now s) = Ok reply)) \<and>
   (\<forall>layout groupId.
      fields_present body \<and> find_layout s date = Some layout \<and>
      \<not> isFinite (b_reservationId body) \<and> b_groupId body = JNum groupId \<and>
      \<not> references_group s groupId \<longrightarrow>
      post_layout_reservation date body now s = (ServerError, s))"
proof (intro conjI allI impI)
  assume "\<not> fields_present body"
  then show "post_layout_reservation date body now s = (BadRequest, s)"
    by (rule post_layout_reservation_rejects)
next
  assume "snd (post_layout_reservation date body now s) \<noteq> s"
  then have both: "fields_present body \<and>
      (\<exists>reply. fst (post_layout_reservation date body now s) = Ok reply)"
    by (rule post_layout_reservation_writes)
  from both show "fields_present body" ..
  from both show "\<exists>reply. fst (post_layout_reservation date body now s) = Ok reply" ..
next
  fix layout groupId
  assume a: "fields_present body \<and> find_layout s date = Some layout \<and>
      \<not> isFinite (b_reservationId body) \<and> b_groupId body = JNum groupId \<and>
      \<not> references_group s groupId"
  then have "fields_present body" by simp
  then obtain g p where fields: "b_groupId body = JNum g" "b_partySize body = JNum p"
      "truthy (b_time body)" "truthy (b_name body)"
    by (rule fields_presentE)
  with a have "g = groupId" by simp
  with a fields post_layout_reservation_create [of s date layout body g p now]
  show "post_layout_reservation date body now s = (ServerError, s)"
    by simp
qed

theorem reservation_checks_presence_only_witness:
  "post_layout_reservation ''2024-01-01''
     \<lparr>b_groupId = JNum 1, b_reservationId = JUndefined, b_time = JStr [],
      b_name = JStr ''Smith'', b_partySize = JNum 4, b_notes = JUndefined\<rparr>
     ''2024-01-01T09:00:00.000Z'' grouped_store
     = (BadRequest, grouped_store) \<and>
   post_layout_reservation ''2024-01-01''
     \<lparr>b_groupId = JNum 8, b_reservationId = JUndefined, b_time = JStr ''18:30'',
      b_name = JStr ''Smith'', b_partySize = JNum 4, b_notes = JUndefined\<rparr>
     ''2024-01-01T09:00:00.000Z'' grouped_store
     = (ServerError, grouped_store)"
proof -
  let ?empty_time = "\<lparr>b_groupId = JNum 1, b_reservationId = JUndefined, b_time = JStr [],
      b_name = JStr ''Smith'', b_partySize = JNum 4, b_notes = JUndefined\<rparr>"
  let ?no_group = "\<lparr>b_groupId = JNum 8, b_reservationId = JUndefined, b_time = JStr ''18:30'',
      b_name = JStr ''Smith'', b_partySize = JNum 4, b_notes = JUndefined\<rparr>"
  have "\<not> fields_present ?empty_time"
    by (simp add: fields_present_def)
  with reservation_checks_presence_only
    [of ?empty_time "''2024-01-01''" "''2024-01-01T09:00:00.000Z''" grouped_store]
  have first: "post_layout_reservation ''2024-01-01'' ?empty_time ''2024-01-01T09:00:00.000Z''
      grouped_store = (BadRequest, grouped_store)"
    by blast
  have "fields_present ?no_group \<and> find_layout grouped_store ''2024-01-01'' = Some 1 \<and>
      \<not> isFinite (b_reservationId ?no_group) \<and> b_groupId ?no_group = JNum 8 \<and>
      \<not> references_group grouped_store 8"
    by (simp add: fields_present_def find_layout_def references_group_def store_defs)
  with reservation_checks_presence_only
    [of ?no_group "''2024-01-01''" "''2024-01-01T09:00:00.000Z''" grouped_store]
  have "post_layout_reservation ''2024-01-01'' ?no_group ''2024-01-01T09:00:00.000Z''
      grouped_store = (ServerError, grouped_store)"
    by blast
  with first show ?thesis by simp
qed

text \<open>
  The claim as stated has a malformed time and a negative party size refused with
  nothing written: the handler stores them and answers 200.
\<close>

theorem malformed_reservation_counterexample:
  "post_layout_reservation ''2024-01-01''
     \<lparr>b_groupId = JNum 1, b_reservationId = JUndefined, b_time = JStr ''banana'',
      b_name = JStr ''Smith'', b_partySize = JNum (- 3), b_notes = JUndefined\<rparr>
     ''2024-01-01T09:00:00.000Z'' grouped_store
     = (Ok \<lparr>rp_id = 1, rp_groupId = 1, rp_time = JStr ''banana'', rp_name = JStr ''Smith'',
            rp_partySize = - 3, rp_notes = JNull\<rparr>,
        grouped_store
          \<lparr>reservations :=
             [\<lparr>r_id = 1, r_layoutInstanceId = 1, r_groupId = 1, r_time = JStr ''banana'',
               r_name = JStr ''Smith'', r_partySize = - 3, r_notes = JNull,
               r_createdAt = ''2024-01-01T09:00:00.000Z'',
               r_updatedAt = ''2024-01-01T09:00:00.000Z''\<rparr>],
           seq_reservations := 1\<rparr>) \<and>
   \<not> spec_positive_integer (- 3)"
  by (simp add: post_layout_reservation_def find_layout_def references_group_def
      notes_or_null_def next_rowid_def spec_positive_integer_def store_defs)

section \<open>A second reservation on a group\<close>

text \<open>
  Claim C8. For a date with a layout instance and a group row that a reservation is
  already bound to, a request with no \<open>reservationId\<close>, the group's id, a non-empty
  \<open>time\<close> and \<open>name\<close> and a finite \<open>partySize\<close> is answered 200 with a new id: a
  second reservation row bound to the same group is appended, the first one stays, and
  the handler answers no Conflict.
\<close>

theorem second_reservation_is_accepted:
  assumes layout: "find_layout s date = Some layout"
    and g: "g \<in> set (table_groups s)"
    and r: "r \<in> set (reservations s)" "r_groupId r = g_id g"
    and fields: "truthy time" "truthy name"
    and create: "\<not> isFinite reservationId"
  shows "\<exists>newId s'.
           post_layout_reservation date
             \<lparr>b_groupId = JNum (of_int (g_id g)), b_reservationId = reservationId,
              b_time = time, b_name = name, b_partySize = JNum partySize, b_notes = notes\<rparr>
             now s
           = (Ok \<lparr>rp_id = of_int newId, rp_groupId = of_int (g_id g), rp_time = time,
                  rp_name = name, rp_partySize = partySize, rp_notes = notes_or_null notes\<rparr>,
              s') \<and>
           reservations s' =
             reservations s @
               [\<lparr>r_id = newId, r_layoutInstanceId = layout, r_groupId = g_id g, r_time = time,
                 r_name = name, r_partySize = partySize, r_notes = notes_or_null notes,
                 r_createdAt = now, r_updatedAt = now\<rparr>] \<and>
           newId \<notin> r_id ` set (reservations s) \<and>
           2 \<le> length (filter (\<lambda>r. r_groupId r = g_id g) (reservations s'))"
proof -
  let ?body = "\<lparr>b_groupId = JNum (of_int (g_id g)), b_reservationId = reservationId,
      b_time = time, b_name = name, b_partySize = JNum partySize, b_notes = notes\<rparr>"
  define newId where "newId = next_rowid (seq_reservations s) (map r_id (reservations s))"
  define row where "row = \<lparr>r_id = newId, r_layoutInstanceId = layout, r_groupId = g_id g,
      r_time = time, r_name = name, r_partySize = partySize, r_notes = notes_or_null notes,
      r_createdAt = now, r_updatedAt = now\<rparr>"
  define s' where "s' = s\<lparr>reservations := reservations s @ [row], seq_reservations := newId\<rparr>"
  from g have fk: "references_group s (of_int (g_id g))"
    unfolding references_group_def by blast
  have "post_layout_reservation date ?body now s =
      (Ok \<lparr>rp_id = of_int newId, rp_groupId = of_int (g_id g), rp_time = time,
            rp_name = name, rp_partySize = partySize, rp_notes = notes_or_null notes\<rparr>, s')"
    using post_layout_reservation_create
      [of s date layout ?body "of_int (g_id g)" partySize now] layout create fields fk
    by (simp add: newId_def row_def s'_def)
  moreover have "reservations s' = reservations s @ [row]"
    by (simp add: s'_def)
  moreover have fresh: "newId \<notin> r_id ` set (reservations s)"
  proof
    assume "newId \<in> r_id ` set (reservations s)"
    then have "newId \<in> set (map r_id (reservations s))" by simp
    from next_rowid_fresh [OF this, of "seq_reservations s"] show False
      by (simp add: newId_def)
  qed
  moreover have "2 \<le> length (filter (\<lambda>r. r_groupId r = g_id g) (reservations s'))"
  proof -
    from r have "filter (\<lambda>r. r_groupId r = g_id g) (reservations s) \<noteq> []"
      by (auto simp: filter_empty_conv)
    then have "1 \<le> length (filter (\<lambda>r. r_groupId r = g_id g) (reservations s))"
      by (cases "filter (\<lambda>r. r_groupId r = g_id g) (reservations s)") simp_all
    then show ?thesis by (simp add: s'_def row_def)
  qed
  ultimately show ?thesis unfolding row_def by blast
qed

theorem second_reservation_is_accepted_witness:
  "post_layout_reservation ''2024-01-01''
     \<lparr>b_groupId = JNum 1, b_reservationId = JUndefined, b_time = JStr ''20:00'',
      b_name = JStr ''Jones'', b_partySize = JNum 2, b_notes = JStr ''window''\<rparr>
     ''2024-01-01T10:00:00.000Z'' reserved_store
   = (Ok \<lparr>rp_id = 2, rp_groupId = 1, rp_time = JStr ''20:00'', rp_name = JStr ''Jones'',
          rp_partySize = 2, rp_notes = JStr ''window''\<rparr>,
      reserved_store
        \<lparr>reservations :=
           [smith,
            \<lparr>r_id = 2, r_layoutInstanceId = 1, r_groupId = 1, r_time = JStr ''20:00'',
              r_name = JStr ''Jones'', r_partySize = 2, r_notes = JStr ''window'',
              r_createdAt = ''2024-01-01T10:00:00.000Z'',
              r_updatedAt = ''2024-01-01T10:00:00.000Z''\<rparr>],
         seq_reservations := 2\<rparr>)"
proof -
  have g: "\<lparr>g_id = 1, g_layoutInstanceId = 1\<rparr> \<in> set (table_groups reserved_store)"
    and r: "smith \<in> set (reservations reserved_store)"
      "r_groupId smith = g_id \<lparr>g_id = 1, g_layoutInstanceId = 1\<rparr>"
    and fields: "truthy (JStr ''20:00'')" "truthy (JStr ''Jones'')" "\<not> isFinite JUndefined"
    by (simp_all add: store_defs)
  from second_reservation_is_accepted [OF find_layout_examples(4) g r fields,
      of 2 "JStr ''window''" "''2024-01-01T10:00:00.000Z''"]
  obtain newId s' where "post_layout_reservation ''2024-01-01''
     \<lparr>b_groupId = JNum 1, b_reservationId = JUndefined, b_time = JStr ''20:00'',
      b_name = JStr ''Jones'', b_partySize = JNum 2, b_notes = JStr ''window''\<rparr>
     ''2024-01-01T10:00:00.000Z'' reserved_store
     = (Ok \<lparr>rp_id = of_int newId, rp_groupId = 1, rp_time = JStr ''20:00'',
            rp_name = JStr ''Jones'', rp_partySize = 2,
            rp_notes = notes_or_null (JStr ''window'')\<rparr>, s')"
    by auto
  then show ?thesis
    by (simp add: post_layout_reservation_def find_layout_def references_group_def
        notes_or_null_def next_rowid_def store_defs)
qed

section \<open>An update keeps the group binding\<close>

text \<open>
  Claim C9. For a request whose \<open>reservationId\<close> is the id of a reservation of the
  instance, whatever \<open>groupId\<close> the body holds: the \<open>id\<close>, \<open>layoutInstanceId\<close>,
  \<open>groupId\<close> and \<open>createdAt\<close> of every reservation row are what they were, and nothing
  outside \<open>reservations\<close> changes; and when the body passes the presence checks the
  answer is 200 and the rows with that id have \<open>time\<close>, \<open>name\<close>, \<open>partySize\<close>,
  \<open>notes\<close> and \<open>updatedAt\<close> replaced, and no other column.
\<close>

theorem update_keeps_group_binding:
  assumes layout: "find_layout s date = Some layout"
    and r: "r \<in> set (reservations s)" "r_layoutInstanceId r = layout"
    and rid: "b_reservationId body = JNum (of_int (r_id r))"
  shows "map binding (reservations (snd (post_layout_reservation date body now s)))
           = map binding (reservations s) \<and>
         (snd (post_layout_reservation date body now s))\<lparr>reservations := reservations s\<rparr> = s \<and>
         (\<forall>groupId partySize.
            b_groupId body = JNum groupId \<and> b_partySize body = JNum partySize \<and>
            truthy (b_time body) \<and> truthy (b_name body) \<longrightarrow>
            post_layout_reservation date body now s =
              (Ok \<lparr>rp_id = of_int (r_id r), rp_groupId = groupId, rp_time = b_time body,
                   rp_name = b_name body, rp_partySize = partySize,
                   rp_notes = notes_or_null (b_notes body)\<rparr>,
               s\<lparr>reservations :=
                   map (\<lambda>r'. if r_id r' = r_id r
                             then r'\<lparr>r_time := b_time body, r_name := b_name body,
                                     r_partySize := partySize,
                                     r_notes := notes_or_null (b_notes body),
                                     r_updatedAt := now\<rparr>
                             else r')
                     (reservations s)\<rparr>))"
proof (intro conjI allI impI)
  from rid have finite: "isFinite (b_reservationId body)" by simp
  from post_layout_reservation_frame [OF finite, of date now s]
  show "map binding (reservations (snd (post_layout_reservation date body now s)))
      = map binding (reservations s)"
    and "(snd (post_layout_reservation date body now s))\<lparr>reservations := reservations s\<rparr> = s"
    by simp_all
next
  fix groupId partySize
  assume "b_groupId body = JNum groupId \<and> b_partySize body = JNum partySize \<and>
      truthy (b_time body) \<and> truthy (b_name body)"
  then have fields: "b_groupId body = JNum groupId" "b_partySize body = JNum partySize"
      "truthy (b_time body)" "truthy (b_name body)"
    by simp_all
  from r have found: "\<exists>r' \<in> set (reservations s).
      (of_int (r_id r') :: rat) = of_int (r_id r) \<and> r_layoutInstanceId r' = layout"
    by blast
  from post_layout_reservation_update [OF layout rid fields, of now] found
  show "post_layout_reservation date body now s =
      (Ok \<lparr>rp_id = of_int (r_id r), rp_groupId = groupId, rp_time = b_time body,
           rp_name = b_name body, rp_partySize = partySize,
           rp_notes = notes_or_null (b_notes body)\<rparr>,
       s\<lparr>reservations :=
           map (\<lambda>r'. if r_id r' = r_id r
                     then r'\<lparr>r_time := b_time body, r_name := b_name body,
                             r_partySize := partySize,
                             r_notes := notes_or_null (b_notes body),
                             r_updatedAt := now\<rparr>
                     else r')
             (reservations s)\<rparr>)"
    by simp
qed

theorem update_keeps_group_binding_witness:
  "post_layout_reservation ''2024-01-01''
     \<lparr>b_groupId = JNum 77, b_reservationId = JNum 1, b_time = JStr ''19:15'',
      b_name = JStr ''Smith'', b_partySize = JNum 6, b_notes = JStr ''birthday''\<rparr>
     ''2024-01-01T11:00:00.000Z'' reserved_store
   = (Ok \<lparr>rp_id = 1, rp_groupId = 77, rp_time = JStr ''19:15'', rp_name = JStr ''Smith'',
          rp_partySize = 6, rp_notes = JStr ''birthday''\<rparr>,
      reserved_store
        \<lparr>reservations :=
           [\<lparr>r_id = 1, r_layoutInstanceId = 1, r_groupId = 1, r_time = JStr ''19:15'',
             r_name = JStr ''Smith'', r_partySize = 6, r_notes = JStr ''birthday'',
             r_createdAt = ''2024-01-01T09:00:00.000Z'',
             r_updatedAt = ''2024-01-01T11:00:00.000Z''\<rparr>]\<rparr>)"
proof -
  let ?body = "\<lparr>b_groupId = JNum 77, b_reservationId = JNum 1, b_time = JStr ''19:15'',
      b_name = JStr ''Smith'', b_partySize = JNum 6, b_notes = JStr ''birthday''\<rparr>"
  have r: "smith \<in> set (reservations reserved_store)" "r_layoutInstanceId smith = 1"
    and rid: "b_reservationId ?body = JNum (of_int (r_id smith))"
    and fields: "b_groupId ?body = JNum 77 \<and> b_partySize ?body = JNum 6 \<and>
      truthy (b_time ?body) \<and> truthy (b_name ?body)"
    by (simp_all add: store_defs)
  from update_keeps_group_binding [OF find_layout_examples(4) r rid,
      of "''2024-01-01T11:00:00.000Z''"] fields
  have "post_layout_reservation ''2024-01-01'' ?body ''2024-01-01T11:00:00.000Z'' reserved_store =
      (Ok \<lparr>rp_id = of_int (r_id smith), rp_groupId = 77, rp_time = b_time ?body,
           rp_name = b_name ?body, rp_partySize = 6,
           rp_notes = notes_or_null (b_notes ?body)\<rparr>,
       reserved_store\<lparr>reservations :=
           map (\<lambda>r'. if r_id r' = r_id smith
                     then r'\<lparr>r_time := b_time ?body, r_name := b_name ?body,
                             r_partySize := 6,
                             r_notes := notes_or_null (b_notes ?body),
                             r_updatedAt := ''2024-01-01T11:00:00.000Z''\<rparr>
                     else r')
             (reservations reserved_store)\<rparr>)"
    by blast
  then show ?thesis
    by (simp add: notes_or_null_def store_defs)
qed

section \<open>Regrouping gives a new group id\<close>

text \<open>
  The hypothesis on the counter below is an invariant of the store: \<open>AUTOINCREMENT\<close>
  keeps the counter at or above every id it has handed out, and the group handler, the
  only one to insert group rows, keeps it so on every path.
\<close>

lemma insert_group_below_counter:
  assumes "\<forall>g \<in> set (table_groups s). g_id g \<le> seq_table_groups s"
  shows "\<forall>g \<in> set (table_groups (snd (insert_group layout s))).
           g_id g \<le> seq_table_groups (snd (insert_group layout s))"
proof
  fix g
  assume "g \<in> set (table_groups (snd (insert_group layout s)))"
  then have "g_id g \<le> next_rowid (seq_table_groups s) (map g_id (table_groups s))"
    using assms next_rowid_above_seq [of "seq_table_groups s" "map g_id (table_groups s)"]
    by (auto simp: insert_group_def Let_def)
  then show "g_id g \<le> seq_table_groups (snd (insert_group layout s))"
    by (simp add: insert_group_def Let_def)
qed

lemma create_group_below_counter:
  assumes "\<forall>g \<in> set (table_groups s). g_id g \<le> seq_table_groups s"
  shows "\<forall>g \<in> set (table_groups (snd (create_group layout tableIds s))).
           g_id g \<le> seq_table_groups (snd (create_group layout tableIds s))"
  using insert_group_below_counter [OF assms, of layout]
  by (simp add: create_group_def split_beta)

lemma group_ids_below_counter:
  assumes "\<forall>g \<in> set (table_groups s). g_id g \<le> seq_table_groups s"
  shows "\<forall>g \<in> set (table_groups (snd (post_layout_group date body s))).
           g_id g \<le> seq_table_groups (snd (post_layout_group date body s))"
proof -
  have del: "\<forall>g \<in> set (table_groups (delete_emptied layout gids (set_group None layout ids s))).
      g_id g \<le> seq_table_groups (delete_emptied layout gids (set_group None layout ids s))"
    for layout gids ids
    using assms by (simp add: delete_emptied_def)
  show ?thesis
    using assms create_group_below_counter [OF assms] create_group_below_counter [OF del]
    by (simp add: post_layout_group_def Let_def split: option.splits)
qed

text \<open>
  Claim C4, as the handler has it. In a store that satisfies the schema (one
  \<open>table_state\<close> row per instance and table; the \<open>AUTOINCREMENT\<close> counter of
  \<open>table_groups\<close> at or above every group id), for a date with a layout instance: a
  group request whose \<open>tableIds\<close> are not empty (the handler refuses an empty list, and
  the specification's group operation has at least one table), are few enough for
  every statement of the handler to be prepared (two parameters and the table ids
  within the store's limit), and are all members of one group that no reservation of
  the instance is bound to, is answered 200 with a group id that differs from that
  group's id and from the id of every group row of the store before the request; the
  new group row exists afterwards and every named table is in it.
\<close>

theorem regroup_yields_new_id:
  assumes layout: "find_layout s date = Some layout"
    and ne: "tableIds \<noteq> []"
    and few: "2 + length tableIds \<le> max_variable_number"
    and pk: "distinct (state_keys s)"
    and seq: "\<forall>g' \<in> set (table_groups s). g_id g' \<le> seq_table_groups s"
    and g: "g \<in> set (table_groups s)"
    and members: "\<forall>t \<in> set tableIds. \<exists>m \<in> set (table_state s).
        ts_layoutInstanceId m = layout \<and> ts_tableId m = t \<and> ts_groupId m = Some (g_id g)"
    and free: "\<forall>r \<in> set (reservations s). r_layoutInstanceId r = layout \<longrightarrow> r_groupId r \<noteq> g_id g"
  shows "\<exists>new s'. post_layout_group date (Some tableIds) s = (Ok new, s') \<and>
           new \<noteq> g_id g \<and> new \<notin> g_id ` set (table_groups s) \<and>
           \<lparr>g_id = new, g_layoutInstanceId = layout\<rparr> \<in> set (table_groups s') \<and>
           (\<forall>m \<in> set (table_state s').
              ts_layoutInstanceId m = layout \<and> ts_tableId m \<in> set tableIds \<longrightarrow>
              ts_groupId m = Some new)"
proof -
  define gids where "gids = existing_groups layout tableIds s"
  define s2 where "s2 = delete_emptied layout gids (set_group None layout tableIds s)"
  define new where "new = fst (insert_group layout s2)"
  define s3 where "s3 = snd (insert_group layout s2)"
  define s' where "s' = set_group (Some new) layout tableIds s3"
  have only: "set gids = {g_id g}"
  proof (intro set_eqI iffI)
    fix x
    assume "x \<in> set gids"
    then obtain m' where m': "m' \<in> set (table_state s)" "ts_layoutInstanceId m' = layout"
        "ts_tableId m' \<in> set tableIds" "ts_groupId m' = Some x"
      unfolding gids_def set_existing_groups by blast
    from members m'(3) obtain m where m: "m \<in> set (table_state s)"
        "ts_layoutInstanceId m = layout" "ts_tableId m = ts_tableId m'"
        "ts_groupId m = Some (g_id g)"
      by blast
    from same_key_same_row [OF pk m(1) m'(1)] m(2,3) m'(2) have "m = m'" by simp
    with m(4) m'(4) show "x \<in> {g_id g}" by simp
  next
    fix x
    assume "x \<in> {g_id g}"
    moreover from ne obtain t where "t \<in> set tableIds" by (cases tableIds) auto
    moreover from this members obtain m where "m \<in> set (table_state s)"
        "ts_layoutInstanceId m = layout" "ts_tableId m = t" "ts_groupId m = Some (g_id g)"
      by blast
    ultimately show "x \<in> set gids"
      unfolding gids_def set_existing_groups by blast
  qed
  then have gids_ne: "gids \<noteq> []" by auto
  have unreserved: "\<not> reserved_count layout gids s > 0"
    unfolding reserved_count_pos only using free by blast
  have result: "post_layout_group date (Some tableIds) s = (Ok new, s')"
    using post_layout_group_within_limit [OF layout ne pk few] gids_ne unreserved
    by (simp add: Let_def gids_def [symmetric] s2_def [symmetric] new_def [symmetric]
        s3_def [symmetric] s'_def)
  have new: "new = next_rowid (seq_table_groups s) (map g_id (table_groups s2))"
    by (simp add: new_def insert_group_def Let_def s2_def delete_emptied_def)
  then have above: "seq_table_groups s < new"
    by (simp add: next_rowid_above_seq)
  have fresh: "new \<notin> g_id ` set (table_groups s)"
  proof
    assume "new \<in> g_id ` set (table_groups s)"
    then obtain g' where "g' \<in> set (table_groups s)" "g_id g' = new" by auto
    with seq above show False by force
  qed
  with g have "new \<noteq> g_id g" by auto
  moreover have "\<lparr>g_id = new, g_layoutInstanceId = layout\<rparr> \<in> set (table_groups s')"
    by (simp add: s'_def s3_def new_def)
  moreover have "\<forall>m \<in> set (table_state s').
      ts_layoutInstanceId m = layout \<and> ts_tableId m \<in> set tableIds \<longrightarrow> ts_groupId m = Some new"
  proof (intro ballI impI)
    fix m
    assume "m \<in> set (table_state s')"
      and "ts_layoutInstanceId m = layout \<and> ts_tableId m \<in> set tableIds"
    with set_group_row_cases [of m "Some new" layout tableIds s3]
    show "ts_groupId m = Some new" by (auto simp: s'_def)
  qed
  ultimately show ?thesis using result fresh by blast
qed

theorem regroup_yields_new_id_witness:
  "post_layout_group ''2024-01-01'' (Some [1, 2]) grouped_store
     = (Ok 2,
        grouped_store
          \<lparr>table_groups := [\<lparr>g_id = 2, g_layoutInstanceId = 1\<rparr>],
           table_state :=
             [\<lparr>ts_layoutInstanceId = 1, ts_tableId = 1, ts_x = 10, ts_y = 20, ts_groupId = Some 2\<rparr>,
              \<lparr>ts_layoutInstanceId = 1, ts_tableId = 2, ts_x = 110, ts_y = 20, ts_groupId = Some 2\<rparr>,
              \<lparr>ts_layoutInstanceId = 1, ts_tableId = 3, ts_x = 210, ts_y = 20, ts_groupId = None\<rparr>],
           seq_table_groups := 2\<rparr>)"
proof -
  have ne: "[1, 2 :: int] \<noteq> []"
    and few: "2 + length [1, 2 :: int] \<le> max_variable_number"
    and pk: "distinct (state_keys grouped_store)"
    and seq: "\<forall>g' \<in> set (table_groups grouped_store). g_id g' \<le> seq_table_groups grouped_store"
    and g: "\<lparr>g_id = 1, g_layoutInstanceId = 1\<rparr> \<in> set (table_groups grouped_store)"
    and members: "\<forall>t \<in> set [1, 2]. \<exists>m \<in> set (table_state grouped_store).
        ts_layoutInstanceId m = 1 \<and> ts_tableId m = t \<and>
        ts_groupId m = Some (g_id \<lparr>g_id = 1, g_layoutInstanceId = 1\<rparr>)"
    and free: "\<forall>r \<in> set (reservations grouped_store).
        r_layoutInstanceId r = 1 \<longrightarrow> r_groupId r \<noteq> g_id \<lparr>g_id = 1, g_layoutInstanceId = 1\<rparr>"
    by (simp_all add: state_keys_def max_variable_number_def store_defs)
  from regroup_yields_new_id [OF find_layout_examples(3) ne few pk seq g members free]
  obtain new s' where ok: "post_layout_group ''2024-01-01'' (Some [1, 2]) grouped_store = (Ok new, s')"
    by blast
  have gids: "existing_groups 1 [1, 2] grouped_store = [1]"
    by (simp add: existing_groups_def List.map_filter_def store_defs)
  have cleared: "set_group None 1 [1, 2] grouped_store
      = opened_store\<lparr>table_groups := [\<lparr>g_id = 1, g_layoutInstanceId = 1\<rparr>],
                      seq_table_groups := 1\<rparr>"
    by (simp add: set_group_def store_defs)
  have none: "member_groups 1 (opened_store\<lparr>table_groups := [\<lparr>g_id = 1, g_layoutInstanceId = 1\<rparr>],
      seq_table_groups := 1\<rparr>) = []"
    by (simp add: member_groups_def List.map_filter_def store_defs)
  have deleted: "delete_emptied 1 [1] (set_group None 1 [1, 2] grouped_store)
      = opened_store\<lparr>seq_table_groups := 1\<rparr>"
    unfolding cleared delete_emptied_def none
    by (simp add: delete_table_groups_def store_defs)
  have unreserved: "reserved_count 1 [1] grouped_store = 0"
    by (simp add: reserved_count_def store_defs)
  have "post_layout_group ''2024-01-01'' (Some [1, 2]) grouped_store
      = create_group 1 [1, 2] (opened_store\<lparr>seq_table_groups := 1\<rparr>)"
    by (simp add: post_layout_group_def Let_def find_layout_examples gids unreserved deleted
        limit_defs)
  with ok have "create_group 1 [1, 2] (opened_store\<lparr>seq_table_groups := 1\<rparr>) = (Ok new, s')"
    by simp
  then have "new = 2" and "s' = grouped_store
          \<lparr>table_groups := [\<lparr>g_id = 2, g_layoutInstanceId = 1\<rparr>],
           table_state :=
             [\<lparr>ts_layoutInstanceId = 1, ts_tableId = 1, ts_x = 10, ts_y = 20, ts_groupId = Some 2\<rparr>,
              \<lparr>ts_layoutInstanceId = 1, ts_tableId = 2, ts_x = 110, ts_y = 20, ts_groupId = Some 2\<rparr>,
              \<lparr>ts_layoutInstanceId = 1, ts_tableId = 3, ts_x = 210, ts_y = 20, ts_groupId = None\<rparr>],
           seq_table_groups := 2\<rparr>"
    by (auto simp: create_group_def insert_group_def set_group_def next_rowid_def limit_defs
        store_defs)
  with ok show ?thesis by simp
qed

text \<open>
  The claim as stated has every such request succeed. A member's id repeated 32765
  times is still a list of members of the group, and its request does not: the queries,
  the clearing \<open>UPDATE\<close> and the \<open>INSERT\<close> are prepared, the last \<open>UPDATE\<close> has one
  parameter too many, and the answer is 500 with table 1 cleared and the new group row
  left without a member.
\<close>

theorem long_regroup_counterexample:
  "set (replicate 32765 (1 :: int)) = {1} \<and>
   post_layout_group ''2024-01-01'' (Some (replicate 32765 1)) grouped_store
     = (ServerError,
        grouped_store
          \<lparr>table_groups := [\<lparr>g_id = 1, g_layoutInstanceId = 1\<rparr>, \<lparr>g_id = 2, g_layoutInstanceId = 1\<rparr>],
           table_state :=
             [\<lparr>ts_layoutInstanceId = 1, ts_tableId = 1, ts_x = 10, ts_y = 20, ts_groupId = None\<rparr>,
              \<lparr>ts_layoutInstanceId = 1, ts_tableId = 2, ts_x = 110, ts_y = 20, ts_groupId = Some 1\<rparr>,
              \<lparr>ts_layoutInstanceId = 1, ts_tableId = 3, ts_x = 210, ts_y = 20, ts_groupId = None\<rparr>],
           seq_table_groups := 2\<rparr>)"
proof -
  let ?ids = "replicate 32765 (1 :: int)"
  have ids: "set ?ids = {1}" "?ids \<noteq> []" "length ?ids = 32765"
    by simp_all
  have gids: "existing_groups 1 ?ids grouped_store = [1]"
    by (simp add: existing_groups_def List.map_filter_def ids store_defs)
  have free: "reserved_count 1 [1] grouped_store = 0"
    by (simp add: reserved_count_def store_defs)
  have cleared: "set_group None 1 ?ids grouped_store
      = grouped_store
          \<lparr>table_state :=
             [\<lparr>ts_layoutInstanceId = 1, ts_tableId = 1, ts_x = 10, ts_y = 20, ts_groupId = None\<rparr>,
              \<lparr>ts_layoutInstanceId = 1, ts_tableId = 2, ts_x = 110, ts_y = 20, ts_groupId = Some 1\<rparr>,
              \<lparr>ts_layoutInstanceId = 1, ts_tableId = 3, ts_x = 210, ts_y = 20, ts_groupId = None\<rparr>]\<rparr>"
    by (simp add: set_group_def ids store_defs)
  have kept: "delete_emptied 1 [1] (set_group None 1 ?ids grouped_store)
      = set_group None 1 ?ids grouped_store"
    unfolding cleared
    by (simp add: delete_emptied_def delete_table_groups_def member_groups_def
        List.map_filter_def store_defs)
  have "post_layout_group ''2024-01-01'' (Some ?ids) grouped_store
      = create_group 1 ?ids (set_group None 1 ?ids grouped_store)"
    by (simp add: post_layout_group_def find_layout_examples gids free kept ids limit_defs)
  also have "\<dots> = (ServerError, snd (insert_group 1 (set_group None 1 ?ids grouped_store)))"
    by (simp add: create_group_def split_beta ids limit_defs)
  finally show ?thesis
    unfolding cleared
    by (simp add: insert_group_def next_rowid_def store_defs)
qed

section \<open>The keys of the table states are kept\<close>

text \<open>
  The hypothesis that there is one \<open>table_state\<close> row per instance and table is the
  primary key of the schema. No handler breaks it: the group and ungroup handlers keep
  the keys of the rows (\<open>post_layout_group_frame\<close>, \<open>post_layout_ungroup_frame\<close>), and so
  do the table update and the reservation handlers.
\<close>

lemma put_layout_table_keys:
  "state_keys (snd (put_layout_table date tableId x y groupId s)) = state_keys s"
proof -
  have "map (\<lambda>m. (ts_layoutInstanceId m, ts_tableId m))
      (map (\<lambda>r. if P r then apply_updates ux uy ug r else r) rows)
      = map (\<lambda>m. (ts_layoutInstanceId m, ts_tableId m)) rows" for P ux uy ug
    and rows :: "table_state_row list"
    by (induction rows) (simp_all add: apply_updates_def)
  then have keys: "state_keys
      (s\<lparr>table_state := map (\<lambda>r. if P r then apply_updates ux uy ug r else r) (table_state s)\<rparr>)
      = state_keys s" for P ux uy ug
    by (simp add: state_keys_def)
  show ?thesis
    unfolding put_layout_table_def Let_def
    by (auto simp: keys split: option.splits)
qed

lemma post_layout_reservation_keys:
  "state_keys (snd (post_layout_reservation date body now s)) = state_keys s"
proof (cases "fields_present body")
  case False
  then show ?thesis by (simp add: post_layout_reservation_rejects)
next
  case True
  then obtain groupId partySize where fields: "b_groupId body = JNum groupId"
      "b_partySize body = JNum partySize" "truthy (b_time body)" "truthy (b_name body)"
    by (rule fields_presentE)
  show ?thesis
  proof (cases "find_layout s date")
    case None
    with fields show ?thesis by (simp add: post_layout_reservation_def)
  next
    case (Some layout)
    show ?thesis
    proof (cases "isFinite (b_reservationId body)")
      case True
      then obtain reservationId where "b_reservationId body = JNum reservationId"
        by (cases "b_reservationId body") simp_all
      from post_layout_reservation_update [OF Some this fields, of now]
      show ?thesis by (simp add: state_keys_def)
    next
      case False
      from post_layout_reservation_create [OF Some False fields, of now]
      show ?thesis by (simp add: state_keys_def)
    qed
  qed
qed

lemma delete_layout_reservation_keys:
  "state_keys (snd (delete_layout_reservation date reservationId s)) = state_keys s"
  by (simp add: delete_layout_reservation_def state_keys_def split: option.splits)

end
